theory Spec2Isabelle
  imports Complex_Main "HOL-Library.Word" "HOL-Library.Log_Nat"
begin

section \<open>The TDOA estimator (tdoa.cpp)\<close>

text \<open>
  The estimator is an extended Kalman filter over a six-dimensional state. The C++ code
  computes in single-precision floats. This section is the estimator in exact
  arithmetic: every float is a real number, so rounding and overflow are not part of
  it. A division whose divisor is zero has no real value (in IEEE arithmetic it yields
  an infinity or a NaN that then spreads through the state), so it is a fault here, as
  is an array access outside the array. The estimator in binary32 arithmetic follows
  in a section of its own.
\<close>

datatype fault = OutOfRange | NonFinite

text \<open>
  Modelled from the spec: the header tdoa.h, which declares the state indices, is not
  part of the sources. The spec gives the layout of the state vector as
  [x, y, z, vx, vy, vz], so \<open>STATE_DIM\<close> is 6 and the indices are the six below.
\<close>

datatype state_idx = STATE_X | STATE_Y | STATE_Z | STATE_VX | STATE_VY | STATE_VZ

definition STATE_DIM :: nat where
  "STATE_DIM = 6"

type_synonym vec = "state_idx \<Rightarrow> real"
type_synonym mat = "state_idx \<Rightarrow> state_idx \<Rightarrow> real"

subsection \<open>The Eigen operations the estimator uses\<close>

definition sum_states :: "(state_idx \<Rightarrow> real) \<Rightarrow> real" where
  "sum_states f = f STATE_X + f STATE_Y + f STATE_Z + f STATE_VX + f STATE_VY + f STATE_VZ"

definition vec_zero :: vec where
  "vec_zero = (\<lambda>i. 0)"

definition mat_zero :: mat where
  "mat_zero = (\<lambda>i j. 0)"

definition mat_identity :: mat where
  "mat_identity = (\<lambda>i j. if i = j then 1 else 0)"

definition mat_set :: "mat \<Rightarrow> state_idx \<Rightarrow> state_idx \<Rightarrow> real \<Rightarrow> mat" where
  "mat_set M i j v = M(i := (M i)(j := v))"

definition mat_transpose :: "mat \<Rightarrow> mat" where
  "mat_transpose M = (\<lambda>i j. M j i)"

definition mat_mul :: "mat \<Rightarrow> mat \<Rightarrow> mat" where
  "mat_mul M M' = (\<lambda>i j. sum_states (\<lambda>k. M i k * M' k j))"

definition mat_sub :: "mat \<Rightarrow> mat \<Rightarrow> mat" where
  "mat_sub M M' = (\<lambda>i j. M i j - M' i j)"

text \<open>A matrix times a column vector, a row vector times a column vector, and a
  column vector times a row vector.\<close>

definition mat_vec :: "mat \<Rightarrow> vec \<Rightarrow> vec" where
  "mat_vec M v = (\<lambda>i. sum_states (\<lambda>k. M i k * v k))"

definition row_col :: "vec \<Rightarrow> vec \<Rightarrow> real" where
  "row_col h v = sum_states (\<lambda>k. h k * v k)"

definition col_row :: "vec \<Rightarrow> vec \<Rightarrow> mat" where
  "col_row k h = (\<lambda>i j. k i * h j)"

definition vec_add :: "vec \<Rightarrow> vec \<Rightarrow> vec" where
  "vec_add u v = (\<lambda>i. u i + v i)"

definition vec_scale :: "vec \<Rightarrow> real \<Rightarrow> vec" where
  "vec_scale v c = (\<lambda>i. v i * c)"

definition vec_div :: "vec \<Rightarrow> real \<Rightarrow> vec" where
  "vec_div v c = (\<lambda>i. v i / c)"

subsection \<open>The estimator's state\<close>

record vec3d_t =
  crd_x :: real
  crd_y :: real
  crd_z :: real

text \<open>
  The fields are those the constructor initialises. \<open>anchorPosition\<close> is a C array; its
  declared size is in the missing header, so it is the length of the list.
\<close>

record TDOA =
  tdoaCount :: int
  nr_states :: nat
  tdoa_S :: vec
  tdoa_P :: mat
  tdoa_A :: mat
  anchorPosition :: "vec3d_t list"
  stdDev :: real

text \<open>
  \<open>initAnchorPos\<close> assigns the three coordinates of the anchors 0 to 3 one by one;
  every coordinate of these four entries is assigned, so each entry is replaced whole.
\<close>

definition initAnchorPos :: "TDOA \<Rightarrow> fault + TDOA" where
  "initAnchorPos st =
     (if length (anchorPosition st) < 4 then Inl OutOfRange
      else Inr (st\<lparr>anchorPosition := (anchorPosition st)
        [0 := \<lparr>crd_x = 4.628, crd_y = 0.600, crd_z = 1.312\<rparr>,
         1 := \<lparr>crd_x = 4.628, crd_y = 3.810, crd_z = 1.297\<rparr>,
         2 := \<lparr>crd_x = 0.043, crd_y = 4.210, crd_z = 1.302\<rparr>,
         3 := \<lparr>crd_x = 0.123, crd_y = 1.673, crd_z = 1.903\<rparr>]\<rparr>))"

text \<open>
  The constructor. Its argument is the storage of the anchor array before the
  constructor runs (the entries past the fourth are never initialised).
\<close>

definition TDOA_ctor :: "vec3d_t list \<Rightarrow> fault + TDOA" where
  "TDOA_ctor storage =
     (let S0 = vec_zero;
          S1 = S0(STATE_X := 2);
          S2 = S1(STATE_Y := 2.6);
          P0 = mat_zero;
          P1 = mat_set P0 STATE_X STATE_X (100 ^ 2);
          P2 = mat_set P1 STATE_Y STATE_Y (100 ^ 2);
          P3 = mat_set P2 STATE_Z STATE_Z (1 ^ 2);
          P4 = mat_set P3 STATE_VX STATE_VX (0.01 ^ 2);
          P5 = mat_set P4 STATE_VY STATE_VY (0.01 ^ 2);
          P6 = mat_set P5 STATE_VZ STATE_VZ (0.01 ^ 2);
          A0 = mat_identity;
          A1 = mat_set A0 STATE_X STATE_VX 0.016;
          A2 = mat_set A1 STATE_Y STATE_VY 0.016;
          A3 = mat_set A2 STATE_Z STATE_VZ 0.016
      in case initAnchorPos \<lparr>tdoaCount = 0, nr_states = STATE_DIM, tdoa_S = S2,
                tdoa_P = P6, tdoa_A = A3, anchorPosition = storage, stdDev = 0\<rparr> of
           Inl e \<Rightarrow> Inl e
         | Inr st \<Rightarrow> Inr (st\<lparr>stdDev := 0.15\<rparr>))"

text \<open>
  \<open>setAncPosition\<close>. \<open>MAX_NR_ANCHORS\<close> is a macro of the missing header and is a
  parameter here. The store into the array is out of range when the index is not below
  the array's size.
\<close>

definition setAncPosition :: "int \<Rightarrow> int \<Rightarrow> vec3d_t \<Rightarrow> TDOA \<Rightarrow> fault + TDOA" where
  "setAncPosition MAX_NR_ANCHORS anc_num anc_pos st =
     (if anc_num < 0 \<or> anc_num > MAX_NR_ANCHORS then Inr st
      else if nat anc_num < length (anchorPosition st)
        then Inr (st\<lparr>anchorPosition := (anchorPosition st)[nat anc_num := anc_pos]\<rparr>)
        else Inl OutOfRange)"

definition setAncPosition_xyz ::
    "int \<Rightarrow> int \<Rightarrow> real \<Rightarrow> real \<Rightarrow> real \<Rightarrow> TDOA \<Rightarrow> fault + TDOA" where
  "setAncPosition_xyz MAX_NR_ANCHORS anc_num x y z st =
     (let temp = \<lparr>crd_x = x, crd_y = y, crd_z = z\<rparr>
      in setAncPosition MAX_NR_ANCHORS anc_num temp st)"

text \<open>
  \<open>stateEstimatorScalarUpdate\<close>. The function's static scratch vectors and matrices
  are written before they are read on every call, so they carry nothing from one call
  to the next and are local here. Eigen evaluates a matrix product into a temporary
  before it assigns, so \<open>P = (I - K*H)*P\<close> reads the old \<open>P\<close> throughout.
\<close>

definition stateEstimatorScalarUpdate :: "vec \<Rightarrow> real \<Rightarrow> real \<Rightarrow> TDOA \<Rightarrow> fault + TDOA" where
  "stateEstimatorScalarUpdate H err stdMeasNoise st =
     (let PHTm = mat_vec (tdoa_P st) H;
          R = stdMeasNoise * stdMeasNoise;
          HPHR = row_col H PHTm + R
      in if HPHR = 0 then Inl NonFinite
         else
           (let K = vec_div PHTm HPHR;
                S' = vec_add (tdoa_S st) (vec_scale K err);
                P' = mat_mul (mat_sub mat_identity (col_row K H)) (tdoa_P st)
            in Inr (st\<lparr>tdoa_S := S', tdoa_P := P'\<rparr>)))"

text \<open>
  \<open>scalarTDOADistUpdate\<close>. The anchor indices are \<open>uint8_t\<close>; \<open>powf(a, 2)\<close> is the
  square and \<open>sqrtf\<close> the square root.
\<close>

definition scalarTDOADistUpdate :: "8 word \<Rightarrow> 8 word \<Rightarrow> real \<Rightarrow> TDOA \<Rightarrow> fault + TDOA" where
  "scalarTDOADistUpdate Ar An distanceDiff st =
     (if unat An < length (anchorPosition st) \<and> unat Ar < length (anchorPosition st) then
        (let measurement = distanceDiff;
             x = tdoa_S st STATE_X;
             y = tdoa_S st STATE_Y;
             z = tdoa_S st STATE_Z;
             x1 = crd_x (anchorPosition st ! unat An);
             y1 = crd_y (anchorPosition st ! unat An);
             z1 = crd_z (anchorPosition st ! unat An);
             x0 = crd_x (anchorPosition st ! unat Ar);
             y0 = crd_y (anchorPosition st ! unat Ar);
             z0 = crd_z (anchorPosition st ! unat Ar);
             d1 = sqrt ((x - x1) ^ 2 + (y - y1) ^ 2 + (z - z1) ^ 2);
             d0 = sqrt ((x - x0) ^ 2 + (y - y0) ^ 2 + (z - z0) ^ 2);
             predicted = d1 - d0;
             err = measurement - predicted
         in if d1 = 0 \<or> d0 = 0 then Inl NonFinite
            else
              (let h0 = vec_zero;
                   h1 = h0(STATE_X := (x - x1) / d1 - (x - x0) / d0);
                   h2 = h1(STATE_Y := (y - y1) / d1 - (y - y0) / d0);
                   h3 = h2(STATE_Z := (z - z1) / d1 - (z - z0) / d0)
               in stateEstimatorScalarUpdate h3 err (stdDev st) st))
      else Inl OutOfRange)"

definition stateEstimatorPredict :: "TDOA \<Rightarrow> TDOA" where
  "stateEstimatorPredict st =
     st\<lparr>tdoa_P := mat_mul (mat_mul (tdoa_A st) (tdoa_P st)) (mat_transpose (tdoa_A st))\<rparr>"

text \<open>\<open>getLocation\<close> also prints the state to the standard output, which is not modelled.\<close>

definition getLocation :: "TDOA \<Rightarrow> vec3d_t" where
  "getLocation st =
     (let pos = \<lparr>crd_x = tdoa_S st STATE_X, crd_y = tdoa_S st STATE_Y,
                 crd_z = tdoa_S st STATE_Z\<rparr>
      in pos)"

subsection \<open>The estimator as the specification words it\<close>

text \<open>
  The innovation variance \<open>H P H\<^sup>T + sigma\<^sup>2\<close> and the Kalman gain
  \<open>K = P H\<^sup>T / (H P H\<^sup>T + sigma\<^sup>2)\<close> of the specification.
\<close>

definition spec_innovation :: "mat \<Rightarrow> vec \<Rightarrow> real \<Rightarrow> real" where
  "spec_innovation P H sigma = row_col H (mat_vec P H) + sigma\<^sup>2"

definition spec_gain :: "mat \<Rightarrow> vec \<Rightarrow> real \<Rightarrow> vec" where
  "spec_gain P H sigma = vec_div (mat_vec P H) (spec_innovation P H sigma)"

text \<open>The distance from the estimated position to the anchor at index \<open>a\<close>, and the
  Jacobian of the range difference between the anchors \<open>n\<close> (other) and \<open>r\<close>
  (reference).\<close>

definition spec_dist :: "TDOA \<Rightarrow> nat \<Rightarrow> real" where
  "spec_dist st a =
     sqrt ((tdoa_S st STATE_X - crd_x (anchorPosition st ! a))\<^sup>2
         + (tdoa_S st STATE_Y - crd_y (anchorPosition st ! a))\<^sup>2
         + (tdoa_S st STATE_Z - crd_z (anchorPosition st ! a))\<^sup>2)"

definition spec_jacobian :: "TDOA \<Rightarrow> nat \<Rightarrow> nat \<Rightarrow> vec" where
  "spec_jacobian st r n = (\<lambda>i. case i of
       STATE_X \<Rightarrow> (tdoa_S st STATE_X - crd_x (anchorPosition st ! n)) / spec_dist st n
                 - (tdoa_S st STATE_X - crd_x (anchorPosition st ! r)) / spec_dist st r
     | STATE_Y \<Rightarrow> (tdoa_S st STATE_Y - crd_y (anchorPosition st ! n)) / spec_dist st n
                 - (tdoa_S st STATE_Y - crd_y (anchorPosition st ! r)) / spec_dist st r
     | STATE_Z \<Rightarrow> (tdoa_S st STATE_Z - crd_z (anchorPosition st ! n)) / spec_dist st n
                 - (tdoa_S st STATE_Z - crd_z (anchorPosition st ! r)) / spec_dist st r
     | STATE_VX \<Rightarrow> 0 | STATE_VY \<Rightarrow> 0 | STATE_VZ \<Rightarrow> 0)"

text \<open>Symmetric and positive-semidefinite matrices; \<open>quad M u v\<close> is \<open>u\<^sup>T M v\<close>.\<close>

definition symmetric :: "mat \<Rightarrow> bool" where
  "symmetric M = (\<forall>i j. M i j = M j i)"

definition quad :: "mat \<Rightarrow> vec \<Rightarrow> vec \<Rightarrow> real" where
  "quad M u v = row_col u (mat_vec M v)"

definition psd :: "mat \<Rightarrow> bool" where
  "psd M = (\<forall>v. 0 \<le> row_col v (mat_vec M v))"

definition unit_vec :: "state_idx \<Rightarrow> vec" where
  "unit_vec i = (\<lambda>k. if i = k then 1 else 0)"

subsection \<open>Sample inputs\<close>

definition sample_storage :: "vec3d_t list" where
  "sample_storage = replicate 4 \<lparr>crd_x = 0, crd_y = 0, crd_z = 0\<rparr>"

definition sample_P :: mat where
  "sample_P = (\<lambda>i j. if i = j then
      (case i of STATE_X \<Rightarrow> 10000 | STATE_Y \<Rightarrow> 10000 | STATE_Z \<Rightarrow> 1
        | STATE_VX \<Rightarrow> 0.0001 | STATE_VY \<Rightarrow> 0.0001 | STATE_VZ \<Rightarrow> 0.0001) else 0)"

text \<open>An estimator at position (2, 1, 0) with four anchors, the first two at distance 5.\<close>

definition sample_state :: TDOA where
  "sample_state = \<lparr>tdoaCount = 0, nr_states = 6,
      tdoa_S = (\<lambda>i. case i of STATE_X \<Rightarrow> 2 | STATE_Y \<Rightarrow> 1 | _ \<Rightarrow> 0),
      tdoa_P = sample_P,
      tdoa_A = mat_identity,
      anchorPosition = [\<lparr>crd_x = 5, crd_y = 5, crd_z = 0\<rparr>, \<lparr>crd_x = 2, crd_y = 4, crd_z = 4\<rparr>,
                        \<lparr>crd_x = 0, crd_y = 4, crd_z = 1\<rparr>, \<lparr>crd_x = 0, crd_y = 1, crd_z = 2\<rparr>],
      stdDev = 0.15\<rparr>"

section \<open>The model-predictive controller (MPC.cpp)\<close>

text \<open>
  The controller computes in double precision, idealised as real numbers like the
  estimator's floats. \<open>size_t\<close> and \<open>unsigned int\<close> values are natural numbers: with
  \<open>N = 10\<close> no subtraction in the source goes below zero and no sum leaves the
  machine range.
\<close>

definition N :: nat where
  "N = 10"

definition dt :: real where
  "dt = 0.1"

definition lr :: real where
  "lr = 0.3"

definition x_bound :: real where
  "x_bound = 3.0"

definition y_bound :: real where
  "y_bound = 3.0"

definition dir_bound :: real where
  "dir_bound = 0.35"

definition vel_bound :: real where
  "vel_bound = 3.0"

definition x_start :: nat where
  "x_start = 0"

definition y_start :: nat where
  "y_start = x_start + N"

definition psi_start :: nat where
  "psi_start = y_start + N"

definition cte_start :: nat where
  "cte_start = psi_start + N"

definition epsi_start :: nat where
  "epsi_start = cte_start + N"

definition v_start :: nat where
  "v_start = epsi_start + N"

definition delta_start :: nat where
  "delta_start = v_start + N - 1"

text \<open>
  \<open>n_vars\<close> and \<open>n_constraints\<close> are locals of \<open>MPC::Solve\<close>; they are constants here
  because the sizes of the solver's vectors are stated in terms of them.
\<close>

definition n_vars :: nat where
  "n_vars = N * 5 + (N - 1) * 2"

definition n_constraints :: nat where
  "n_constraints = N * 5"

subsection \<open>The objective and the constraints: \<open>FG_eval::operator()\<close>\<close>

text \<open>\<open>fg[0]\<close>, the cost: the three loops of the source, each a fold over its range.\<close>

definition cost :: "real list \<Rightarrow> real" where
  "cost vars =
     (let cte_weight = 1;
          epsi_weight = 1;
          delta_weight = 200;
          delta_rate_weight = 250;
          v_weight = 50;
          v_rate_weight = 200;
          c = 0;
          c = fold (\<lambda>t c. (c + cte_weight * (vars ! (cte_start + t)) ^ 2)
                           + epsi_weight * (vars ! (epsi_start + t)) ^ 2) [0..<N] c;
          c = fold (\<lambda>t c. (c + delta_weight * (vars ! (delta_start + t)) ^ 2)
                           + v_weight * (vars ! (v_start + t)) ^ 2) [0..<N - 1] c;
          c = fold (\<lambda>t c. (c + delta_rate_weight
                                  * (vars ! (delta_start + t + 1) - vars ! (delta_start + t)) ^ 2)
                           + v_rate_weight
                                  * (vars ! (v_start + t + 1) - vars ! (v_start + t)) ^ 2) [0..<N - 2] c
      in c)"

text \<open>
  One round of the loop over \<open>t = 1, ..., N - 1\<close> that writes the five model constraints
  of step \<open>t\<close> into \<open>fg\<close>. \<open>CppAD::atan\<close> is \<open>arctan\<close>.
\<close>

definition model_step :: "real list \<Rightarrow> real list \<Rightarrow> nat \<Rightarrow> real list \<Rightarrow> real list" where
  "model_step coeffs vars t fg =
     (let x1 = vars ! (x_start + t);
          y1 = vars ! (y_start + t);
          psi1 = vars ! (psi_start + t);
          cte1 = vars ! (cte_start + t);
          epsi1 = vars ! (epsi_start + t);
          x0 = vars ! (x_start + t - 1);
          y0 = vars ! (y_start + t - 1);
          psi0 = vars ! (psi_start + t - 1);
          cte0 = vars ! (cte_start + t - 1);
          epsi0 = vars ! (epsi_start + t - 1);
          x0_2 = x0 * x0;
          x0_3 = x0_2 * x0;
          delta0 = vars ! (delta_start + t - 1);
          v0 = vars ! (v_start + t - 1);
          f0 = coeffs ! 0 + coeffs ! 1 * x0 + coeffs ! 2 * x0_2 + coeffs ! 3 * x0_3;
          psides0 = arctan (coeffs ! 1 + 2 * coeffs ! 2 * x0 + 3 * coeffs ! 3 * x0_2)
      in fg[1 + x_start + t := x1 - (x0 + v0 * cos psi0 * dt),
            1 + y_start + t := y1 - (y0 + v0 * sin psi0 * dt),
            1 + psi_start + t := psi1 - (psi0 + v0 * tan delta0 * dt / lr),
            1 + cte_start + t := cte1 - ((f0 - y0) + (v0 * sin epsi0 * dt)),
            1 + epsi_start + t := epsi1 - ((psi0 - psides0) + v0 * delta0 / lr * dt)])"

text \<open>
  The operator writes into the vector \<open>fg\<close> that the solver hands it. A read or a write
  outside \<open>coeffs\<close>, \<open>vars\<close> or \<open>fg\<close> is the fault \<open>OutOfRange\<close>: the largest index read
  in \<open>vars\<close> is \<open>delta_start + N - 2\<close>, the largest written in \<open>fg\<close> is \<open>epsi_start + N\<close>.
\<close>

definition FG_eval :: "real list \<Rightarrow> real list \<Rightarrow> real list \<Rightarrow> fault + real list" where
  "FG_eval coeffs fg vars =
     (if 4 \<le> length coeffs \<and> delta_start + N - 1 \<le> length vars \<and> 1 + epsi_start + N \<le> length fg
      then
        (let fg = fg[0 := cost vars];
             fg = fg[1 + x_start := vars ! x_start];
             fg = fg[1 + y_start := vars ! y_start];
             fg = fg[1 + psi_start := vars ! psi_start];
             fg = fg[1 + cte_start := vars ! cte_start];
             fg = fg[1 + epsi_start := vars ! epsi_start];
             fg = fold (model_step coeffs vars) [1..<N] fg
         in Inr fg)
      else Inl OutOfRange)"

subsection \<open>\<open>MPC::Solve\<close>\<close>

text \<open>
  The solver is CppAD's \<open>ipopt::solve\<close>, which is not part of the sources; it is a
  parameter of \<open>Solve\<close>. Of its result only \<open>status\<close> and the solution vector \<open>x\<close> are
  read. \<open>status_type\<close> lists the status values of CppAD's \<open>solve_result\<close>.
\<close>

datatype status_type =
    not_defined | success | maxiter_exceeded | stop_at_tiny_step | stop_at_acceptable_point
  | local_infeasibility | user_requested_stop | feasible_point_found | diverging_iterates
  | restoration_failure | error_in_step_calculation | invalid_number_detected
  | too_few_degrees_of_freedom | internal_error | unknown

record solve_result =
  status :: status_type
  sol_x :: "real list"

text \<open>The problem \<open>Solve\<close> hands to the solver: the options, the start point, the bounds
  on the variables and on the constraints, and the object that evaluates \<open>fg\<close>.\<close>

record nlp =
  options :: string
  xi :: "real list"
  xl :: "real list"
  xu :: "real list"
  gl :: "real list"
  gu :: "real list"
  fg_eval :: "real list \<Rightarrow> real list \<Rightarrow> fault + real list"

text \<open>The members of the controller that \<open>Solve\<close> writes (MPC.h is not part of the sources).\<close>

record MPC =
  x_vals :: "real list"
  y_vals :: "real list"

text \<open>
  The part of \<open>Solve\<close> before the call of the solver. Every vector is created with its
  size and then written entry by entry by the loops of the source.
\<close>

definition Solve_problem :: "real list \<Rightarrow> real list \<Rightarrow> nlp" where
  "Solve_problem state coeffs =
     (let x = state ! 0;
          y = state ! 1;
          psi = state ! 2;
          cte = state ! 3;
          epsi = state ! 4;
          vars = replicate n_vars 0;
          vars = fold (\<lambda>i v. v[i := 0]) [0..<n_vars] vars;
          vars = vars[x_start := x];
          vars = vars[y_start := y];
          vars = vars[psi_start := psi];
          vars = vars[cte_start := cte];
          vars = vars[epsi_start := epsi];
          vars_lowerbound = replicate n_vars 0;
          vars_upperbound = replicate n_vars 0;
          vars_lowerbound = fold (\<lambda>i v. v[i := - (10 ^ 19)]) [0..<delta_start] vars_lowerbound;
          vars_upperbound = fold (\<lambda>i v. v[i := 10 ^ 19]) [0..<delta_start] vars_upperbound;
          vars_lowerbound = fold (\<lambda>i v. v[i := - dir_bound]) [delta_start..<n_vars] vars_lowerbound;
          vars_upperbound = fold (\<lambda>i v. v[i := dir_bound]) [delta_start..<n_vars] vars_upperbound;
          vars_lowerbound = fold (\<lambda>i v. v[i := - vel_bound]) [v_start..<delta_start] vars_lowerbound;
          vars_upperbound = fold (\<lambda>i v. v[i := vel_bound]) [v_start..<delta_start] vars_upperbound;
          constraints_lowerbound = replicate n_constraints 0;
          constraints_upperbound = replicate n_constraints 0;
          constraints_lowerbound = fold (\<lambda>i v. v[i := 0.0]) [0..<n_constraints] constraints_lowerbound;
          constraints_upperbound = fold (\<lambda>i v. v[i := 0.0]) [0..<n_constraints] constraints_upperbound;
          constraints_lowerbound = constraints_lowerbound[x_start := x];
          constraints_lowerbound = constraints_lowerbound[y_start := y];
          constraints_lowerbound = constraints_lowerbound[psi_start := psi];
          constraints_lowerbound = constraints_lowerbound[cte_start := cte];
          constraints_lowerbound = constraints_lowerbound[epsi_start := epsi];
          constraints_upperbound = constraints_upperbound[x_start := x];
          constraints_upperbound = constraints_upperbound[y_start := y];
          constraints_upperbound = constraints_upperbound[psi_start := psi];
          constraints_upperbound = constraints_upperbound[cte_start := cte];
          constraints_upperbound = constraints_upperbound[epsi_start := epsi];
          opts = [];
          opts = opts @ ''Integer print_level  0'' @ [CHR 0x0A];
          opts = opts @ ''Sparse  true        forward'' @ [CHR 0x0A];
          opts = opts @ ''Numeric max_cpu_time          0.099'' @ [CHR 0x0A]
      in \<lparr>options = opts, xi = vars, xl = vars_lowerbound, xu = vars_upperbound,
          gl = constraints_lowerbound, gu = constraints_upperbound,
          fg_eval = FG_eval coeffs\<rparr>)"

text \<open>
  \<open>Solve\<close>. The flag \<open>ok\<close> is computed from the status and never read again. The
  members \<open>x_vals\<close> and \<open>y_vals\<close> of the controller are cleared and refilled.
\<close>

definition Solve ::
    "(nlp \<Rightarrow> solve_result) \<Rightarrow> real list \<Rightarrow> real list \<Rightarrow> MPC \<Rightarrow> fault + (real list \<times> MPC)" where
  "Solve ipopt_solve state coeffs this =
     (if 5 \<le> length state then
        (let ok = True;
             solution = ipopt_solve (Solve_problem state coeffs);
             ok = (ok \<and> status solution = success)
         in if delta_start < length (sol_x solution) then
              (let result = [];
                   result = result @ [sol_x solution ! delta_start];
                   result = result @ [sol_x solution ! v_start];
                   this = this\<lparr>x_vals := []\<rparr>;
                   this = this\<lparr>y_vals := []\<rparr>;
                   this = fold (\<lambda>i m. (m\<lparr>x_vals := x_vals m @ [sol_x solution ! (x_start + i)]\<rparr>)
                                        \<lparr>y_vals := y_vals m @ [sol_x solution ! (y_start + i)]\<rparr>)
                            [1..<N] this
               in Inr (result, this))
            else Inl OutOfRange)
      else Inl OutOfRange)"

text \<open>
  The solver's contract for the constraints: \<open>fg[0]\<close> is the objective and \<open>fg[1 + i]\<close>
  the value of constraint \<open>i\<close>, which a feasible point keeps between \<open>gl[i]\<close> and
  \<open>gu[i]\<close>.
\<close>

definition constraint_holds :: "nlp \<Rightarrow> real list \<Rightarrow> nat \<Rightarrow> bool" where
  "constraint_holds p fg i = (gl p ! i \<le> fg ! (1 + i) \<and> fg ! (1 + i) \<le> gu p ! i)"

subsection \<open>The horizon as the specification words it\<close>

definition x_at :: "real list \<Rightarrow> nat \<Rightarrow> real" where
  "x_at vars t = vars ! (x_start + t)"

definition y_at :: "real list \<Rightarrow> nat \<Rightarrow> real" where
  "y_at vars t = vars ! (y_start + t)"

definition heading_at :: "real list \<Rightarrow> nat \<Rightarrow> real" where
  "heading_at vars t = vars ! (psi_start + t)"

definition cte_at :: "real list \<Rightarrow> nat \<Rightarrow> real" where
  "cte_at vars t = vars ! (cte_start + t)"

definition heading_error_at :: "real list \<Rightarrow> nat \<Rightarrow> real" where
  "heading_error_at vars t = vars ! (epsi_start + t)"

definition speed_at :: "real list \<Rightarrow> nat \<Rightarrow> real" where
  "speed_at vars t = vars ! (v_start + t)"

definition steering_at :: "real list \<Rightarrow> nat \<Rightarrow> real" where
  "steering_at vars t = vars ! (delta_start + t)"

definition spec_poly :: "real list \<Rightarrow> real \<Rightarrow> real" where
  "spec_poly c x = c ! 0 + c ! 1 * x + c ! 2 * x ^ 2 + c ! 3 * x ^ 3"

definition spec_poly_slope :: "real list \<Rightarrow> real \<Rightarrow> real" where
  "spec_poly_slope c x = c ! 1 + 2 * c ! 2 * x + 3 * c ! 3 * x ^ 2"

text \<open>The rows of \<open>fg\<close> that round \<open>t\<close> of the constraint loop writes.\<close>

definition model_rows :: "nat \<Rightarrow> nat set" where
  "model_rows t = {1 + x_start + t, 1 + y_start + t, 1 + psi_start + t, 1 + cte_start + t,
                   1 + epsi_start + t}"

text \<open>A solver that gives up after its last iteration and reports the point it reached.\<close>

definition failing_solver :: "nlp \<Rightarrow> solve_result" where
  "failing_solver p = \<lparr>status = maxiter_exceeded, sol_x = replicate n_vars 7\<rparr>"

section \<open>The estimator in binary32 arithmetic\<close>

text \<open>
  The definitions above compute in the real numbers. What the machine computes is the
  same sequence of operations in IEEE 754 binary32, each operation rounded on its own
  to the nearest value, ties to even. This section models that arithmetic and, in it,
  the two update functions, for the claims whose truth depends on rounding or on
  underflow.
\<close>

subsection \<open>Binary32 values and rounding\<close>

text \<open>
  A value is a zero with its sign (\<open>True\<close> for the negative one), a finite number other
  than zero, an infinity with its sign, or a NaN.
\<close>

datatype f32 = F_zero bool | F_fin real | F_inf bool | F_nan

text \<open>The nearest integer, a tie going to the even one.\<close>

definition round_even :: "real \<Rightarrow> int" where
  "round_even y =
     (let f = \<lfloor>y\<rfloor>
      in if y - of_int f < 1 / 2 then f
         else if 1 / 2 < y - of_int f then f + 1
         else if even f then f else f + 1)"

text \<open>
  The distance between neighbouring binary32 values around \<open>x\<close>: \<open>1 / 2 ^ 149\<close> for
  \<open>|x|\<close> below \<open>1 / 2 ^ 125\<close> (the subnormal numbers and the first binade of the normal
  ones), and \<open>2 ^ e / 2 ^ 23\<close> for \<open>|x|\<close> from \<open>2 ^ e\<close> up to \<open>2 ^ (e + 1)\<close> above.
  \<open>bitlen n\<close> is the number of binary digits of \<open>n\<close>.
\<close>

definition f32_quantum :: "real \<Rightarrow> real" where
  "f32_quantum x = 2 ^ nat (max (bitlen \<lfloor>\<bar>x\<bar> * 2 ^ 149\<rfloor> - 24) 0) / 2 ^ 149"

text \<open>
  Rounding a real result: to the nearest multiple of the distance, to an infinity from
  \<open>2 ^ 128\<close> on, and to a zero that keeps the sign of the result; an exact zero gets the
  sign \<open>s\<close> that the operation prescribes.
\<close>

definition f32_round :: "bool \<Rightarrow> real \<Rightarrow> f32" where
  "f32_round s x =
     (let y = f32_quantum x * of_int (round_even (x / f32_quantum x))
      in if 2 ^ 128 \<le> \<bar>y\<bar> then F_inf (x < 0)
         else if y = 0 then F_zero (if x = 0 then s else x < 0)
         else F_fin y)"

text \<open>The operations of IEEE 754 with their special cases; \<open>sqrtf\<close> is \<open>fsqrt\<close>.\<close>

fun f32_sign :: "f32 \<Rightarrow> bool" where
  "f32_sign (F_zero s) = s"
| "f32_sign (F_fin x) = (x < 0)"
| "f32_sign (F_inf s) = s"
| "f32_sign F_nan = False"

fun fneg :: "f32 \<Rightarrow> f32" where
  "fneg (F_zero s) = F_zero (\<not> s)"
| "fneg (F_fin x) = F_fin (- x)"
| "fneg (F_inf s) = F_inf (\<not> s)"
| "fneg F_nan = F_nan"

fun fmul :: "f32 \<Rightarrow> f32 \<Rightarrow> f32" where
  "fmul F_nan b = F_nan"
| "fmul a F_nan = F_nan"
| "fmul (F_inf s) (F_zero s') = F_nan"
| "fmul (F_zero s) (F_inf s') = F_nan"
| "fmul (F_inf s) b = F_inf (s \<noteq> f32_sign b)"
| "fmul a (F_inf s') = F_inf (f32_sign a \<noteq> s')"
| "fmul (F_zero s) b = F_zero (s \<noteq> f32_sign b)"
| "fmul a (F_zero s') = F_zero (f32_sign a \<noteq> s')"
| "fmul (F_fin x) (F_fin y) = f32_round False (x * y)"

fun fadd :: "f32 \<Rightarrow> f32 \<Rightarrow> f32" where
  "fadd F_nan b = F_nan"
| "fadd a F_nan = F_nan"
| "fadd (F_inf s) (F_inf s') = (if s = s' then F_inf s else F_nan)"
| "fadd (F_inf s) b = F_inf s"
| "fadd a (F_inf s') = F_inf s'"
| "fadd (F_zero s) (F_zero s') = F_zero (s \<and> s')"
| "fadd (F_zero s) (F_fin y) = F_fin y"
| "fadd (F_fin x) (F_zero s') = F_fin x"
| "fadd (F_fin x) (F_fin y) = f32_round False (x + y)"

definition fsub :: "f32 \<Rightarrow> f32 \<Rightarrow> f32" where
  "fsub a b = fadd a (fneg b)"

fun fdiv :: "f32 \<Rightarrow> f32 \<Rightarrow> f32" where
  "fdiv F_nan b = F_nan"
| "fdiv a F_nan = F_nan"
| "fdiv (F_inf s) (F_inf s') = F_nan"
| "fdiv (F_zero s) (F_zero s') = F_nan"
| "fdiv (F_inf s) b = F_inf (s \<noteq> f32_sign b)"
| "fdiv a (F_inf s') = F_zero (f32_sign a \<noteq> s')"
| "fdiv (F_fin x) (F_zero s') = F_inf ((x < 0) \<noteq> s')"
| "fdiv (F_zero s) (F_fin y) = F_zero (s \<noteq> (y < 0))"
| "fdiv (F_fin x) (F_fin y) = f32_round False (x / y)"

fun fsqrt :: "f32 \<Rightarrow> f32" where
  "fsqrt F_nan = F_nan"
| "fsqrt (F_inf s) = (if s then F_nan else F_inf False)"
| "fsqrt (F_zero s) = F_zero s"
| "fsqrt (F_fin x) = (if x < 0 then F_nan else f32_round False (sqrt x))"

text \<open>The real number a finite value stands for (0 for the others).\<close>

definition to_real :: "f32 \<Rightarrow> real" where
  "to_real a = (case a of F_fin x \<Rightarrow> x | _ \<Rightarrow> 0)"

definition real_vec :: "(state_idx \<Rightarrow> f32) \<Rightarrow> vec" where
  "real_vec v = (\<lambda>i. to_real (v i))"

definition real_mat :: "(state_idx \<Rightarrow> state_idx \<Rightarrow> f32) \<Rightarrow> mat" where
  "real_mat M = (\<lambda>i j. to_real (M i j))"

subsection \<open>The Eigen operations in binary32\<close>

text \<open>
  The source does not fix the order in which Eigen adds up the terms of a product; the
  sums here go from the first index to the last. The inputs evaluated below have at
  most two terms other than zero in every sum, and such a sum does not depend on the
  order.
\<close>

definition sum_states32 :: "(state_idx \<Rightarrow> f32) \<Rightarrow> f32" where
  "sum_states32 f =
     fadd (fadd (fadd (fadd (fadd (f STATE_X) (f STATE_Y)) (f STATE_Z)) (f STATE_VX)) (f STATE_VY))
       (f STATE_VZ)"

definition mat_identity32 :: "state_idx \<Rightarrow> state_idx \<Rightarrow> f32" where
  "mat_identity32 = (\<lambda>i j. if i = j then F_fin 1 else F_zero False)"

definition mat_vec32 :: "(state_idx \<Rightarrow> state_idx \<Rightarrow> f32) \<Rightarrow> (state_idx \<Rightarrow> f32) \<Rightarrow> state_idx \<Rightarrow> f32" where
  "mat_vec32 M v = (\<lambda>i. sum_states32 (\<lambda>k. fmul (M i k) (v k)))"

definition row_col32 :: "(state_idx \<Rightarrow> f32) \<Rightarrow> (state_idx \<Rightarrow> f32) \<Rightarrow> f32" where
  "row_col32 h v = sum_states32 (\<lambda>k. fmul (h k) (v k))"

definition col_row32 :: "(state_idx \<Rightarrow> f32) \<Rightarrow> (state_idx \<Rightarrow> f32) \<Rightarrow> state_idx \<Rightarrow> state_idx \<Rightarrow> f32" where
  "col_row32 k h = (\<lambda>i j. fmul (k i) (h j))"

definition mat_sub32 :: "(state_idx \<Rightarrow> state_idx \<Rightarrow> f32) \<Rightarrow> (state_idx \<Rightarrow> state_idx \<Rightarrow> f32) \<Rightarrow> state_idx \<Rightarrow> state_idx \<Rightarrow> f32" where
  "mat_sub32 M M' = (\<lambda>i j. fsub (M i j) (M' i j))"

definition mat_mul32 :: "(state_idx \<Rightarrow> state_idx \<Rightarrow> f32) \<Rightarrow> (state_idx \<Rightarrow> state_idx \<Rightarrow> f32) \<Rightarrow> state_idx \<Rightarrow> state_idx \<Rightarrow> f32" where
  "mat_mul32 M M' = (\<lambda>i j. sum_states32 (\<lambda>k. fmul (M i k) (M' k j)))"

definition vec_add32 :: "(state_idx \<Rightarrow> f32) \<Rightarrow> (state_idx \<Rightarrow> f32) \<Rightarrow> state_idx \<Rightarrow> f32" where
  "vec_add32 u v = (\<lambda>i. fadd (u i) (v i))"

definition vec_scale32 :: "(state_idx \<Rightarrow> f32) \<Rightarrow> f32 \<Rightarrow> state_idx \<Rightarrow> f32" where
  "vec_scale32 v c = (\<lambda>i. fmul (v i) c)"

definition vec_div32 :: "(state_idx \<Rightarrow> f32) \<Rightarrow> f32 \<Rightarrow> state_idx \<Rightarrow> f32" where
  "vec_div32 v c = (\<lambda>i. fdiv (v i) c)"

subsection \<open>The two updates in binary32\<close>

record vec3d32_t =
  crd32_x :: f32
  crd32_y :: f32
  crd32_z :: f32

record TDOA32 =
  tdoaCount32 :: int
  nr_states32 :: nat
  tdoa32_S :: "state_idx \<Rightarrow> f32"
  tdoa32_P :: "state_idx \<Rightarrow> state_idx \<Rightarrow> f32"
  tdoa32_A :: "state_idx \<Rightarrow> state_idx \<Rightarrow> f32"
  anchorPosition32 :: "vec3d32_t list"
  stdDev32 :: f32

text \<open>\<open>stateEstimatorScalarUpdate\<close>, lines 139 to 150, every operation in binary32. No
  operation is guarded, so the function always returns; what it returns may hold
  infinities and NaNs.\<close>

definition stateEstimatorScalarUpdate_f32 ::
    "(state_idx \<Rightarrow> f32) \<Rightarrow> f32 \<Rightarrow> f32 \<Rightarrow> TDOA32 \<Rightarrow> TDOA32" where
  "stateEstimatorScalarUpdate_f32 H err stdMeasNoise st =
     (let PHTm = mat_vec32 (tdoa32_P st) H;
          R = fmul stdMeasNoise stdMeasNoise;
          HPHR = fadd (row_col32 H PHTm) R;
          K = vec_div32 PHTm HPHR;
          S' = vec_add32 (tdoa32_S st) (vec_scale32 K err);
          P' = mat_mul32 (mat_sub32 mat_identity32 (col_row32 K H)) (tdoa32_P st)
      in st\<lparr>tdoa32_S := S', tdoa32_P := P'\<rparr>)"

text \<open>
  \<open>powf(a, 2)\<close> is taken to be the rounded square. The squares evaluated below are
  exact or lie far below the smallest binary32 value.
\<close>

definition powf_2 :: "f32 \<Rightarrow> f32" where
  "powf_2 a = fmul a a"

text \<open>The expression of \<open>d1\<close> and of \<open>d0\<close> (lines 110 and 111) for the anchor at index \<open>a\<close>.\<close>

definition anchor_dist_f32 :: "TDOA32 \<Rightarrow> nat \<Rightarrow> f32" where
  "anchor_dist_f32 st a =
     fsqrt (fadd (fadd (powf_2 (fsub (tdoa32_S st STATE_X) (crd32_x (anchorPosition32 st ! a))))
                       (powf_2 (fsub (tdoa32_S st STATE_Y) (crd32_y (anchorPosition32 st ! a)))))
                 (powf_2 (fsub (tdoa32_S st STATE_Z) (crd32_z (anchorPosition32 st ! a)))))"

text \<open>\<open>scalarTDOADistUpdate\<close>, lines 100 to 122, every operation in binary32.\<close>

definition scalarTDOADistUpdate_f32 :: "8 word \<Rightarrow> 8 word \<Rightarrow> f32 \<Rightarrow> TDOA32 \<Rightarrow> fault + TDOA32" where
  "scalarTDOADistUpdate_f32 Ar An distanceDiff st =
     (if unat An < length (anchorPosition32 st) \<and> unat Ar < length (anchorPosition32 st) then
        (let measurement = distanceDiff;
             x = tdoa32_S st STATE_X;
             y = tdoa32_S st STATE_Y;
             z = tdoa32_S st STATE_Z;
             x1 = crd32_x (anchorPosition32 st ! unat An);
             y1 = crd32_y (anchorPosition32 st ! unat An);
             z1 = crd32_z (anchorPosition32 st ! unat An);
             x0 = crd32_x (anchorPosition32 st ! unat Ar);
             y0 = crd32_y (anchorPosition32 st ! unat Ar);
             z0 = crd32_z (anchorPosition32 st ! unat Ar);
             d1 = anchor_dist_f32 st (unat An);
             d0 = anchor_dist_f32 st (unat Ar);
             predicted = fsub d1 d0;
             err = fsub measurement predicted;
             h0 = (\<lambda>i. F_zero False);
             h1 = h0(STATE_X := fsub (fdiv (fsub x x1) d1) (fdiv (fsub x x0) d0));
             h2 = h1(STATE_Y := fsub (fdiv (fsub y y1) d1) (fdiv (fsub y y0) d0));
             h3 = h2(STATE_Z := fsub (fdiv (fsub z z1) d1) (fdiv (fsub z z0) d0))
         in Inr (stateEstimatorScalarUpdate_f32 h3 err (stdDev32 st) st))
      else Inl OutOfRange)"

subsection \<open>Sample inputs in binary32\<close>

text \<open>
  An estimator with covariance 0, to be updated with the noise standard deviation
  \<open>1 / 2 ^ 80\<close>, whose square is below every binary32 value other than zero.
\<close>

definition tiny :: real where
  "tiny = 1 / 2 ^ 80"

definition unit32_X :: "state_idx \<Rightarrow> f32" where
  "unit32_X = (\<lambda>i. case i of STATE_X \<Rightarrow> F_fin 1 | _ \<Rightarrow> F_zero False)"

definition underflow_state :: TDOA32 where
  "underflow_state = \<lparr>tdoaCount32 = 0, nr_states32 = 6,
      tdoa32_S = (\<lambda>i. case i of STATE_X \<Rightarrow> F_fin 2 | STATE_Y \<Rightarrow> F_fin 1 | _ \<Rightarrow> F_zero False),
      tdoa32_P = (\<lambda>i j. F_zero False),
      tdoa32_A = mat_identity32,
      anchorPosition32 = [],
      stdDev32 = F_fin tiny\<rparr>"

text \<open>
  An estimator with a symmetric positive-definite covariance block for x and y, and an
  observation row nearly orthogonal to its second row: \<open>P H\<^sup>T\<close> has the y entry
  \<open>1 / 512\<close>.
\<close>

definition rounding_P :: "state_idx \<Rightarrow> state_idx \<Rightarrow> f32" where
  "rounding_P = (\<lambda>i j. case (i, j) of
           (STATE_X, STATE_X) \<Rightarrow> F_fin 3
         | (STATE_X, STATE_Y) \<Rightarrow> F_fin (1 / 2)
         | (STATE_Y, STATE_X) \<Rightarrow> F_fin (1 / 2)
         | (STATE_Y, STATE_Y) \<Rightarrow> F_fin (13 / 2)
         | _ \<Rightarrow> F_zero False)"

definition rounding_H :: "state_idx \<Rightarrow> f32" where
  "rounding_H = (\<lambda>i. case i of STATE_X \<Rightarrow> F_fin 3 | STATE_Y \<Rightarrow> F_fin (- 59 / 256)
       | _ \<Rightarrow> F_zero False)"

definition rounding_state :: TDOA32 where
  "rounding_state = \<lparr>tdoaCount32 = 0, nr_states32 = 6,
      tdoa32_S = (\<lambda>i. case i of STATE_X \<Rightarrow> F_fin 2 | STATE_Y \<Rightarrow> F_fin 1 | _ \<Rightarrow> F_zero False),
      tdoa32_P = rounding_P,
      tdoa32_A = mat_identity32,
      anchorPosition32 = [],
      stdDev32 = F_fin 1\<rparr>"

text \<open>
  An estimator at \<open>(1 / 2 ^ 80, 0, 0)\<close> with the anchor 1 at the origin and the anchor 0
  at \<open>(1 / 2 ^ 80, 1, 0)\<close>; its position differs from both.
\<close>

definition near_anchor_state :: TDOA32 where
  "near_anchor_state = \<lparr>tdoaCount32 = 0, nr_states32 = 6,
      tdoa32_S = (\<lambda>i. case i of STATE_X \<Rightarrow> F_fin tiny | _ \<Rightarrow> F_zero False),
      tdoa32_P = mat_identity32,
      tdoa32_A = mat_identity32,
      anchorPosition32 =
        [\<lparr>crd32_x = F_fin tiny, crd32_y = F_fin 1, crd32_z = F_zero False\<rparr>,
         \<lparr>crd32_x = F_zero False, crd32_y = F_zero False, crd32_z = F_zero False\<rparr>],
      stdDev32 = F_fin 1\<rparr>"

text \<open>
  An estimator at the origin with covariance 0, both anchors at distance 1, and the
  noise standard deviation \<open>1 / 2 ^ 80\<close>.
\<close>

definition small_noise_state :: TDOA32 where
  "small_noise_state = \<lparr>tdoaCount32 = 0, nr_states32 = 6,
      tdoa32_S = (\<lambda>i. F_zero False),
      tdoa32_P = (\<lambda>i j. F_zero False),
      tdoa32_A = mat_identity32,
      anchorPosition32 =
        [\<lparr>crd32_x = F_zero False, crd32_y = F_fin 1, crd32_z = F_zero False\<rparr>,
         \<lparr>crd32_x = F_fin 1, crd32_y = F_zero False, crd32_z = F_zero False\<rparr>],
      stdDev32 = F_fin tiny\<rparr>"

section \<open>Properties of the estimator\<close>

subsection \<open>Sums over the state indices\<close>

lemma sum_states_add: "sum_states (\<lambda>i. f i + g i) = sum_states f + sum_states g"
  by (simp add: sum_states_def)

lemma sum_states_diff: "sum_states (\<lambda>i. f i - g i) = sum_states f - sum_states g"
  by (simp add: sum_states_def)

lemma sum_states_cmult: "sum_states (\<lambda>i. c * f i) = c * sum_states f"
  by (simp add: sum_states_def distrib_left)

lemma sum_states_multc: "sum_states (\<lambda>i. f i * c) = sum_states f * c"
  by (simp add: sum_states_def distrib_right)

lemma sum_states_delta: "sum_states (\<lambda>k. (if i = k then 1 else 0) * f k) = f i"
  by (cases i) (simp_all add: sum_states_def)

lemma sum_states_delta': "sum_states (\<lambda>k. f k * (if i = k then 1 else 0)) = f i"
  by (cases i) (simp_all add: sum_states_def)

lemma sum_states_cong: "(\<And>i. f i = g i) \<Longrightarrow> sum_states f = sum_states g"
  by (simp add: sum_states_def)

lemma sum_states_swap:
  "sum_states (\<lambda>k. sum_states (\<lambda>l. f k l)) = sum_states (\<lambda>l. sum_states (\<lambda>k. f k l))"
  by (simp add: sum_states_def)

subsection \<open>The bilinear form of a matrix\<close>

lemma quad_add_left: "quad M (vec_add u w) v = quad M u v + quad M w v"
  by (simp add: quad_def row_col_def vec_add_def distrib_right sum_states_add)

lemma quad_add_right: "quad M u (vec_add v w) = quad M u v + quad M u w"
  by (simp add: quad_def row_col_def mat_vec_def vec_add_def distrib_left sum_states_add)

lemma quad_scale_left: "quad M (vec_scale u c) v = c * quad M u v"
  by (simp add: quad_def row_col_def vec_scale_def sum_states_cmult[symmetric] mult_ac)

lemma quad_scale_right: "quad M u (vec_scale v c) = c * quad M u v"
  by (simp add: quad_def row_col_def mat_vec_def vec_scale_def sum_states_cmult[symmetric] mult_ac)

lemma quad_transpose: "quad (mat_transpose M) u v = quad M v u"
  by (simp add: quad_def row_col_def mat_vec_def mat_transpose_def sum_states_def algebra_simps)

lemma symmetric_iff: "symmetric M \<longleftrightarrow> mat_transpose M = M"
  by (auto simp: symmetric_def mat_transpose_def fun_eq_iff)

lemma quad_sym: "symmetric M \<Longrightarrow> quad M u v = quad M v u"
  using quad_transpose[of M u v] by (simp add: symmetric_iff)

lemma psd_quad: "psd M \<Longrightarrow> 0 \<le> quad M v v"
  by (simp add: psd_def quad_def)

lemma quad_unit_left: "quad M (unit_vec i) v = mat_vec M v i"
  by (simp add: quad_def row_col_def unit_vec_def sum_states_delta)

lemma quad_unit_unit: "quad M (unit_vec i) (unit_vec j) = M i j"
  by (simp add: quad_unit_left) (simp add: mat_vec_def unit_vec_def sum_states_delta')

lemma psd_diag_nonneg: "psd M \<Longrightarrow> 0 \<le> M i i"
  using psd_quad[of M "unit_vec i"] by (simp add: quad_unit_unit)

lemma quad_line:
  assumes "symmetric M"
  shows "quad M (vec_add u (vec_scale v t)) (vec_add u (vec_scale v t)) =
         quad M u u + 2 * t * quad M u v + t * t * quad M v v"
  using quad_sym[OF assms, of v u]
  by (simp add: quad_add_left quad_add_right quad_scale_left quad_scale_right algebra_simps)

text \<open>
  The Cauchy-Schwarz inequality of a symmetric positive-semidefinite form: the form is
  non-negative along the line \<open>u + t v\<close>, at the \<open>t\<close> that minimises it in particular.
\<close>

lemma quad_cauchy_schwarz:
  assumes sym: "symmetric M" and psd: "psd M"
  shows "(quad M u v)\<^sup>2 \<le> quad M u u * quad M v v"
proof -
  define a where "a = quad M v v"
  define b where "b = quad M u v"
  define c where "c = quad M u u"
  have line: "0 \<le> c + 2 * t * b + t * t * a" for t
    using psd_quad[OF psd, of "vec_add u (vec_scale v t)"] quad_line[OF sym, of u v t]
    by (simp add: a_def b_def c_def)
  have a0: "0 \<le> a" using psd_quad[OF psd, of v] by (simp add: a_def)
  show ?thesis
  proof (cases "a = 0")
    case True
    have "b = 0"
    proof (rule ccontr)
      assume nz: "b \<noteq> 0"
      have "0 \<le> c + 2 * (- (c + 1) / (2 * b)) * b"
        using line[of "- (c + 1) / (2 * b)"] True by simp
      also have "\<dots> = - 1" using nz by (simp add: field_simps)
      finally show False by simp
    qed
    then show ?thesis using True by (simp add: a_def b_def c_def)
  next
    case False
    then have apos: "0 < a" using a0 by simp
    have "0 \<le> c + 2 * (- b / a) * b + (- b / a) * (- b / a) * a"
      using line[of "- b / a"] by simp
    also have "\<dots> = c - b\<^sup>2 / a" using apos by (simp add: field_simps power2_eq_square)
    finally have "b\<^sup>2 / a \<le> c" by simp
    then have "b\<^sup>2 \<le> c * a" using apos by (simp add: field_simps)
    then show ?thesis by (simp add: a_def b_def c_def)
  qed
qed

subsection \<open>Products of matrices\<close>

lemma mat_vec_mul: "mat_vec (mat_mul M M') v = mat_vec M (mat_vec M' v)"
proof
  fix i
  have "mat_vec (mat_mul M M') v i = sum_states (\<lambda>k. sum_states (\<lambda>l. M i l * M' l k * v k))"
    by (simp add: mat_vec_def mat_mul_def sum_states_multc)
  also have "\<dots> = sum_states (\<lambda>l. sum_states (\<lambda>k. M i l * M' l k * v k))"
    by (rule sum_states_swap)
  also have "\<dots> = mat_vec M (mat_vec M' v) i"
    by (simp add: mat_vec_def sum_states_cmult mult.assoc)
  finally show "mat_vec (mat_mul M M') v i = mat_vec M (mat_vec M' v) i" .
qed

lemma row_col_mat_vec: "row_col u (mat_vec M w) = row_col (mat_vec (mat_transpose M) u) w"
proof -
  have "row_col u (mat_vec M w) = sum_states (\<lambda>i. sum_states (\<lambda>k. u i * M i k * w k))"
    by (simp add: row_col_def mat_vec_def sum_states_cmult mult.assoc)
  also have "\<dots> = sum_states (\<lambda>k. sum_states (\<lambda>i. u i * M i k * w k))"
    by (rule sum_states_swap)
  also have "\<dots> = row_col (mat_vec (mat_transpose M) u) w"
    by (simp add: row_col_def mat_vec_def mat_transpose_def sum_states_multc
        mult.commute[of "u _" "M _ _"])
  finally show ?thesis .
qed

lemma mat_mul_assoc: "mat_mul (mat_mul M M') M'' = mat_mul M (mat_mul M' M'')"
proof (intro ext)
  fix i j
  have "mat_mul (mat_mul M M') M'' i j =
      sum_states (\<lambda>k. sum_states (\<lambda>l. M i l * M' l k * M'' k j))"
    by (simp add: mat_mul_def sum_states_multc)
  also have "\<dots> = sum_states (\<lambda>l. sum_states (\<lambda>k. M i l * M' l k * M'' k j))"
    by (rule sum_states_swap)
  also have "\<dots> = mat_mul M (mat_mul M' M'') i j"
    by (simp add: mat_mul_def sum_states_cmult mult.assoc)
  finally show "mat_mul (mat_mul M M') M'' i j = mat_mul M (mat_mul M' M'') i j" .
qed

lemma transpose_mul: "mat_transpose (mat_mul M M') = mat_mul (mat_transpose M') (mat_transpose M)"
  by (simp add: mat_transpose_def mat_mul_def fun_eq_iff mult.commute)

lemma transpose_transpose: "mat_transpose (mat_transpose M) = M"
  by (simp add: mat_transpose_def)

text \<open>The congruence \<open>A P A\<^sup>T\<close> keeps symmetry and positive semidefiniteness.\<close>

lemma symmetric_congruence:
  assumes "symmetric P"
  shows "symmetric (mat_mul (mat_mul A P) (mat_transpose A))"
  using assms
  by (simp add: symmetric_iff transpose_mul transpose_transpose mat_mul_assoc)

lemma quad_congruence:
  "quad (mat_mul (mat_mul A P) (mat_transpose A)) v v =
   quad P (mat_vec (mat_transpose A) v) (mat_vec (mat_transpose A) v)"
  by (simp add: quad_def mat_vec_mul row_col_mat_vec[of v A])

lemma psd_congruence: "psd P \<Longrightarrow> psd (mat_mul (mat_mul A P) (mat_transpose A))"
  unfolding psd_def using quad_congruence[of A P] by (simp add: quad_def)

subsection \<open>The scalar update\<close>

lemma innovation_eq: "row_col H (mat_vec P H) + sigma * sigma = spec_innovation P H sigma"
  by (simp add: spec_innovation_def power2_eq_square)

lemma innovation_quad: "spec_innovation P H sigma = quad P H H + sigma\<^sup>2"
  by (simp add: spec_innovation_def quad_def)

lemma innovation_pos: "psd P \<Longrightarrow> sigma \<noteq> 0 \<Longrightarrow> 0 < spec_innovation P H sigma"
  using psd_quad[of P H] by (simp add: innovation_quad add_nonneg_pos)

lemma scalar_update_ok_iff:
  "(\<exists>st'. stateEstimatorScalarUpdate H r sigma st = Inr st') \<longleftrightarrow>
     spec_innovation (tdoa_P st) H sigma \<noteq> 0"
  unfolding stateEstimatorScalarUpdate_def Let_def innovation_eq by simp

lemma scalar_update_fault_iff:
  "stateEstimatorScalarUpdate H r sigma st = Inl NonFinite \<longleftrightarrow>
     spec_innovation (tdoa_P st) H sigma = 0"
  unfolding stateEstimatorScalarUpdate_def Let_def innovation_eq by simp

text \<open>For a symmetric \<open>P\<close> the new covariance is \<open>P\<close> minus a rank-one matrix.\<close>

lemma update_cov_entries:
  assumes "symmetric P"
  shows "mat_mul (mat_sub mat_identity (col_row (vec_div (mat_vec P H) s) H)) P =
         (\<lambda>i j. P i j - mat_vec P H i * mat_vec P H j / s)"
proof (intro ext)
  fix i j
  let ?g = "mat_vec P H"
  have hp: "sum_states (\<lambda>k. H k * P k j) = ?g j"
    using assms by (simp add: mat_vec_def symmetric_def mult.commute)
  have "mat_mul (mat_sub mat_identity (col_row (vec_div ?g s) H)) P i j =
        sum_states (\<lambda>k. (if i = k then 1 else 0) * P k j - (?g i / s) * (H k * P k j))"
    by (simp add: mat_mul_def mat_sub_def mat_identity_def col_row_def vec_div_def
        left_diff_distrib mult.assoc)
  also have "\<dots> = P i j - (?g i / s) * sum_states (\<lambda>k. H k * P k j)"
    by (simp only: sum_states_diff sum_states_delta sum_states_cmult)
  finally show "mat_mul (mat_sub mat_identity (col_row (vec_div ?g s) H)) P i j =
        P i j - ?g i * ?g j / s"
    by (simp add: hp)
qed

lemma scalar_update_result:
  assumes "symmetric (tdoa_P st)" "spec_innovation (tdoa_P st) H sigma \<noteq> 0"
  shows "stateEstimatorScalarUpdate H r sigma st =
     Inr (st\<lparr>tdoa_S := (\<lambda>i. tdoa_S st i
                 + mat_vec (tdoa_P st) H i / spec_innovation (tdoa_P st) H sigma * r),
             tdoa_P := (\<lambda>i j. tdoa_P st i j
                 - mat_vec (tdoa_P st) H i * mat_vec (tdoa_P st) H j
                     / spec_innovation (tdoa_P st) H sigma)\<rparr>)"
  using assms(2)
  unfolding stateEstimatorScalarUpdate_def Let_def innovation_eq update_cov_entries[OF assms(1)]
  by (simp add: vec_add_def vec_scale_def vec_div_def)

lemma quad_rank_one:
  "quad (\<lambda>i j. P i j - g i * g j / s) v v = quad P v v - (row_col v g)\<^sup>2 / s"
proof -
  have inner: "mat_vec (\<lambda>i j. P i j - g i * g j / s) v i =
        mat_vec P v i - (g i / s) * row_col v g" for i
  proof -
    have "mat_vec (\<lambda>i j. P i j - g i * g j / s) v i =
        sum_states (\<lambda>k. P i k * v k - (g i / s) * (v k * g k))"
      unfolding mat_vec_def by (rule sum_states_cong) (simp add: left_diff_distrib)
    also have "\<dots> = mat_vec P v i - (g i / s) * row_col v g"
      by (simp only: sum_states_diff sum_states_cmult mat_vec_def row_col_def)
    finally show ?thesis .
  qed
  have "quad (\<lambda>i j. P i j - g i * g j / s) v v =
        sum_states (\<lambda>i. v i * mat_vec P v i - (v i * g i) * (row_col v g / s))"
    by (simp add: quad_def row_col_def[of v "mat_vec _ _"] inner right_diff_distrib mult_ac)
  also have "\<dots> = quad P v v - row_col v g * (row_col v g / s)"
    by (simp only: sum_states_diff sum_states_multc quad_def row_col_def)
  finally show ?thesis by (simp add: power2_eq_square)
qed

lemma symmetric_update:
  "symmetric P \<Longrightarrow> symmetric (\<lambda>i j. P i j - g i * g j / (s::real))"
  by (simp add: symmetric_def mult.commute)

lemma psd_update:
  assumes sym: "symmetric P" and psd: "psd P" and s: "0 < s" and qs: "quad P H H \<le> s"
  shows "psd (\<lambda>i j. P i j - mat_vec P H i * mat_vec P H j / s)"
  unfolding psd_def
proof
  fix v
  have cs: "(quad P v H)\<^sup>2 \<le> quad P v v * quad P H H"
    by (rule quad_cauchy_schwarz[OF sym psd])
  have "quad P v v * quad P H H \<le> quad P v v * s"
    using qs psd_quad[OF psd, of v] by (rule mult_left_mono)
  with cs have "(quad P v H)\<^sup>2 \<le> quad P v v * s" by simp
  then have "(quad P v H)\<^sup>2 / s \<le> quad P v v"
    using s by (simp add: field_simps)
  moreover have "quad (\<lambda>i j. P i j - mat_vec P H i * mat_vec P H j / s) v v =
      quad P v v - (quad P v H)\<^sup>2 / s"
    unfolding quad_def[of P v H] by (rule quad_rank_one)
  ultimately have "0 \<le> quad (\<lambda>i j. P i j - mat_vec P H i * mat_vec P H j / s) v v"
    by simp
  then show "0 \<le> row_col v (mat_vec (\<lambda>i j. P i j - mat_vec P H i * mat_vec P H j / s) v)"
    by (simp add: quad_def)
qed

subsection \<open>The sample state\<close>

lemma psd_diagonal:
  assumes "\<And>i. 0 \<le> d i"
  shows "psd (\<lambda>i j. if i = j then d i else 0)"
proof -
  have "0 \<le> v i * (d i * v i)" for v :: vec and i
    using assms[of i] by (simp add: mult.left_commute zero_le_mult_iff)
  then have "0 \<le> sum_states (\<lambda>i. v i * (d i * v i))" for v :: vec
    by (simp add: sum_states_def)
  moreover have "mat_vec (\<lambda>i j. if i = j then d i else 0) v i = d i * v i" for v i
    using sum_states_delta[of i "\<lambda>k. d i * v k"]
    by (simp add: mat_vec_def if_distrib[of "\<lambda>x. x * _"] cong: if_cong)
  ultimately show ?thesis
    by (simp add: psd_def row_col_def)
qed

lemma sample_P_sym: "symmetric sample_P"
  by (simp add: symmetric_def sample_P_def)

lemma sample_P_psd: "psd sample_P"
  unfolding sample_P_def by (rule psd_diagonal) (simp split: state_idx.splits)

lemma sample_state_P: "tdoa_P sample_state = sample_P"
  by (simp add: sample_state_def)

lemma sample_innovation_pos: "0 < spec_innovation (tdoa_P sample_state) H 0.15"
  using sample_P_psd by (simp add: innovation_pos sample_state_P)

subsection \<open>The updates in binary32 at the sample inputs\<close>

lemma round_tiny_sq: "f32_round False (tiny * tiny) = F_zero False"
  unfolding tiny_def by code_simp

lemma round_0: "f32_round False 0 = F_zero False"
  by code_simp

lemma round_1: "f32_round False 1 = F_fin 1"
  by code_simp

lemma underflow_update:
  "tdoa32_S (stateEstimatorScalarUpdate_f32 unit32_X (F_zero False) (F_fin tiny) underflow_state)
      STATE_X = F_nan"
  by (simp add: stateEstimatorScalarUpdate_f32_def Let_def sum_states32_def underflow_state_def
      unit32_X_def round_tiny_sq mat_vec32_def row_col32_def vec_div32_def vec_add32_def
      vec_scale32_def)

lemma near_anchor_d1: "anchor_dist_f32 near_anchor_state (unat (1 :: 8 word)) = F_zero False"
  by (simp add: anchor_dist_f32_def near_anchor_state_def powf_2_def fsub_def round_tiny_sq)

lemma near_anchor_d0: "anchor_dist_f32 near_anchor_state (unat (0 :: 8 word)) = F_fin 1"
  by (simp add: anchor_dist_f32_def near_anchor_state_def powf_2_def fsub_def round_0 round_1)

lemma near_anchor_update:
  "scalarTDOADistUpdate_f32 0 1 (F_zero False) near_anchor_state = Inr st' \<Longrightarrow>
   tdoa32_S st' STATE_X = F_nan"
  unfolding scalarTDOADistUpdate_f32_def Let_def near_anchor_d1 near_anchor_d0
  by (auto simp: near_anchor_state_def fsub_def round_0 round_1
      stateEstimatorScalarUpdate_f32_def Let_def sum_states32_def mat_identity32_def
      mat_vec32_def row_col32_def vec_div32_def vec_add32_def vec_scale32_def)

lemma round_m1: "f32_round False (- 1) = F_fin (- 1)"
  by code_simp

lemma small_noise_dists:
  "anchor_dist_f32 small_noise_state (unat (1 :: 8 word)) = F_fin 1"
  "anchor_dist_f32 small_noise_state (unat (0 :: 8 word)) = F_fin 1"
  by (simp_all add: anchor_dist_f32_def small_noise_state_def powf_2_def fsub_def round_1)

lemma small_noise_update:
  "scalarTDOADistUpdate_f32 0 1 (F_zero False) small_noise_state = Inr st' \<Longrightarrow>
   tdoa32_S st' STATE_X = F_nan"
  unfolding scalarTDOADistUpdate_f32_def Let_def small_noise_dists
  by (auto simp: small_noise_state_def fsub_def round_0 round_1 round_m1 round_tiny_sq
      stateEstimatorScalarUpdate_f32_def Let_def sum_states32_def
      mat_vec32_def row_col32_def vec_div32_def vec_add32_def vec_scale32_def)

text \<open>
  The update of \<open>rounding_state\<close> step by step: \<open>P H\<^sup>T\<close>, the innovation variance, the
  gain of y, and the new variance of y.
\<close>

lemma rounding_PHTm:
  "mat_vec32 rounding_P rounding_H STATE_X = F_fin (4549 / 512)"
  "mat_vec32 rounding_P rounding_H STATE_Y = F_fin (1 / 512)"
  "mat_vec32 rounding_P rounding_H STATE_Z = F_zero False"
  "mat_vec32 rounding_P rounding_H STATE_VX = F_zero False"
  "mat_vec32 rounding_P rounding_H STATE_VY = F_zero False"
  "mat_vec32 rounding_P rounding_H STATE_VZ = F_zero False"
  by code_simp+

lemma rounding_HPHR:
  "fadd (fadd (fadd (fadd (fadd (fadd
      (fmul (rounding_H STATE_X) (F_fin (4549 / 512)))
      (fmul (rounding_H STATE_Y) (F_fin (1 / 512))))
      (fmul (rounding_H STATE_Z) (F_zero False)))
      (fmul (rounding_H STATE_VX) (F_zero False)))
      (fmul (rounding_H STATE_VY) (F_zero False)))
      (fmul (rounding_H STATE_VZ) (F_zero False)))
      (fmul (F_fin 1) (F_fin 1)) = F_fin (3624645 / 2 ^ 17)"
  by code_simp

lemma rounding_K_Y: "fdiv (F_fin (1 / 512)) (F_fin (3624645 / 2 ^ 17)) = F_fin (1213373 / 2 ^ 34)"
  by code_simp

lemma rounding_P_YY:
  "sum_states32 (\<lambda>k. fmul (fsub (mat_identity32 STATE_Y k)
       (fmul (F_fin (1213373 / 2 ^ 34)) (rounding_H k))) (rounding_P k STATE_Y))
     = F_fin (13631489 / 2 ^ 21)"
  by code_simp

lemma rounding_update:
  "tdoa32_P (stateEstimatorScalarUpdate_f32 rounding_H (F_zero False) (F_fin 1) rounding_state)
      STATE_Y STATE_Y = F_fin (13631489 / 2 ^ 21)"
proof -
  have P: "tdoa32_P rounding_state = rounding_P"
    by (simp add: rounding_state_def)
  have HPHR: "fadd (row_col32 rounding_H (mat_vec32 rounding_P rounding_H))
      (fmul (F_fin 1) (F_fin 1)) = F_fin (3624645 / 2 ^ 17)"
    unfolding row_col32_def sum_states32_def[of "\<lambda>k. fmul (rounding_H k) (mat_vec32 rounding_P rounding_H k)"]
      rounding_PHTm
    by (rule rounding_HPHR)
  have "mat_mul32 (mat_sub32 mat_identity32
          (col_row32 (vec_div32 (mat_vec32 rounding_P rounding_H) (F_fin (3624645 / 2 ^ 17)))
             rounding_H)) rounding_P STATE_Y STATE_Y = F_fin (13631489 / 2 ^ 21)"
    unfolding mat_mul32_def mat_sub32_def col_row32_def vec_div32_def rounding_PHTm(2)
      rounding_K_Y
    by (rule rounding_P_YY)
  then show ?thesis
    unfolding stateEstimatorScalarUpdate_f32_def Let_def P HPHR
    by simp
qed

lemma real_mat_zero: "real_mat (\<lambda>i j. F_zero False) = (\<lambda>i j. 0)"
  by (simp add: real_mat_def to_real_def)

lemma psd_zero: "psd (\<lambda>i j. 0)"
  by (simp add: psd_def row_col_def mat_vec_def sum_states_def)

lemma underflow_hyps:
  "symmetric (real_mat (tdoa32_P underflow_state))"
  "psd (real_mat (tdoa32_P underflow_state))"
  "0 < spec_innovation (real_mat (tdoa32_P underflow_state)) (real_vec unit32_X)
         (to_real (F_fin tiny))"
  by (simp_all add: underflow_state_def real_mat_zero psd_zero symmetric_def
      spec_innovation_def row_col_def mat_vec_def sum_states_def to_real_def tiny_def)

lemma rounding_P_real:
  "real_mat rounding_P = (\<lambda>i j. case (i, j) of
           (STATE_X, STATE_X) \<Rightarrow> 3
         | (STATE_X, STATE_Y) \<Rightarrow> 1 / 2
         | (STATE_Y, STATE_X) \<Rightarrow> 1 / 2
         | (STATE_Y, STATE_Y) \<Rightarrow> 13 / 2
         | _ \<Rightarrow> 0)"
  by (intro ext) (simp add: real_mat_def rounding_P_def to_real_def split: state_idx.splits)

lemma rounding_P_quad:
  "row_col v (mat_vec (real_mat rounding_P) v) =
     3 * (v STATE_X + v STATE_Y / 6)\<^sup>2 + (77 / 12) * (v STATE_Y)\<^sup>2"
  by (simp add: rounding_P_real row_col_def mat_vec_def sum_states_def power2_eq_square
      algebra_simps)

lemma rounding_hyps:
  "symmetric (real_mat (tdoa32_P rounding_state))"
  "psd (real_mat (tdoa32_P rounding_state))"
  "0 < spec_innovation (real_mat (tdoa32_P rounding_state)) (real_vec rounding_H)
         (to_real (F_fin 1))"
proof -
  have P: "tdoa32_P rounding_state = rounding_P"
    by (simp add: rounding_state_def)
  show "symmetric (real_mat (tdoa32_P rounding_state))"
    unfolding P rounding_P_real symmetric_def by (simp split: state_idx.splits)
  show psd: "psd (real_mat (tdoa32_P rounding_state))"
    unfolding P psd_def rounding_P_quad by simp
  have "0 \<le> row_col (real_vec rounding_H) (mat_vec (real_mat rounding_P) (real_vec rounding_H))"
    unfolding rounding_P_quad by simp
  then show "0 < spec_innovation (real_mat (tdoa32_P rounding_state)) (real_vec rounding_H)
         (to_real (F_fin 1))"
    unfolding P spec_innovation_def by (simp add: to_real_def)
qed

subsection \<open>The claims about the generic scalar update and the prediction\<close>

text \<open>
  C1. For every observation row \<open>H\<close>, residual \<open>r\<close> and noise standard deviation \<open>sigma\<close>
  with \<open>H P H\<^sup>T + sigma\<^sup>2\<close> different from zero, \<open>stateEstimatorScalarUpdate\<close> returns
  the estimator with the state replaced by \<open>S + K r\<close> and the covariance by
  \<open>(I - K H) P\<close>, where \<open>K = P H\<^sup>T / (H P H\<^sup>T + sigma\<^sup>2)\<close>; every other field is
  as before.
\<close>

theorem scalar_update_formula:
  assumes "spec_innovation (tdoa_P st) H sigma \<noteq> 0"
  shows "stateEstimatorScalarUpdate H r sigma st =
    Inr (st\<lparr>tdoa_S := vec_add (tdoa_S st) (vec_scale (spec_gain (tdoa_P st) H sigma) r),
            tdoa_P := mat_mul (mat_sub mat_identity (col_row (spec_gain (tdoa_P st) H sigma) H))
                        (tdoa_P st)\<rparr>)"
  using assms
  unfolding stateEstimatorScalarUpdate_def Let_def innovation_eq
  by (simp add: spec_gain_def)

theorem scalar_update_formula_witness:
  "stateEstimatorScalarUpdate (unit_vec STATE_X) 1 0.15 sample_state =
    Inr (sample_state\<lparr>
      tdoa_S := vec_add (tdoa_S sample_state)
                  (vec_scale (spec_gain (tdoa_P sample_state) (unit_vec STATE_X) 0.15) 1),
      tdoa_P := mat_mul (mat_sub mat_identity
                  (col_row (spec_gain (tdoa_P sample_state) (unit_vec STATE_X) 0.15)
                     (unit_vec STATE_X)))
                  (tdoa_P sample_state)\<rparr>)"
  using scalar_update_formula[of sample_state "unit_vec STATE_X" "0.15" 1]
    sample_innovation_pos[of "unit_vec STATE_X"]
  by simp

text \<open>
  C5. \<open>stateEstimatorPredict\<close> replaces the covariance by \<open>A P A\<^sup>T\<close>, entry \<open>(i, j)\<close> of
  which is the sum of \<open>A i k * P k l * A j l\<close> over \<open>k\<close> and \<open>l\<close>, and leaves the state
  vector, the transition matrix, the anchor positions, the noise standard deviation and
  the two counters as they were: the state mean is not advanced.
\<close>

theorem predict_frame:
  "tdoa_P (stateEstimatorPredict st) =
     (\<lambda>i j. sum_states (\<lambda>l. sum_states (\<lambda>k. tdoa_A st i k * tdoa_P st k l) * tdoa_A st j l))
   \<and> tdoa_S (stateEstimatorPredict st) = tdoa_S st
   \<and> tdoa_A (stateEstimatorPredict st) = tdoa_A st
   \<and> anchorPosition (stateEstimatorPredict st) = anchorPosition st
   \<and> stdDev (stateEstimatorPredict st) = stdDev st
   \<and> tdoaCount (stateEstimatorPredict st) = tdoaCount st
   \<and> nr_states (stateEstimatorPredict st) = nr_states st"
  by (simp add: stateEstimatorPredict_def mat_mul_def mat_transpose_def)

text \<open>
  C8, as the claim states it, fails on the binary32 code. With covariance 0, a unit
  observation row, residual 0 and \<open>sigma = 1 / 2 ^ 80\<close> the innovation variance is
  positive, but \<open>sigma * sigma\<close> underflows to 0, the gain is \<open>0 / 0\<close> and the state
  becomes NaN. With the covariance block \<open>((3, 1/2), (1/2, 13/2))\<close>, the row
  \<open>(3, -59/256)\<close>, residual 0 and \<open>sigma = 1\<close> nothing underflows, and the variance of y
  rises from \<open>13/2\<close> to the next binary32 value.
\<close>

theorem zero_residual_float_counterexample:
  "symmetric (real_mat (tdoa32_P underflow_state))
   \<and> psd (real_mat (tdoa32_P underflow_state))
   \<and> 0 < spec_innovation (real_mat (tdoa32_P underflow_state)) (real_vec unit32_X)
           (to_real (F_fin tiny))
   \<and> tdoa32_S underflow_state STATE_X = F_fin 2
   \<and> tdoa32_S (stateEstimatorScalarUpdate_f32 unit32_X (F_zero False) (F_fin tiny)
         underflow_state) STATE_X = F_nan
   \<and> symmetric (real_mat (tdoa32_P rounding_state))
   \<and> psd (real_mat (tdoa32_P rounding_state))
   \<and> 0 < spec_innovation (real_mat (tdoa32_P rounding_state)) (real_vec rounding_H)
           (to_real (F_fin 1))
   \<and> tdoa32_P rounding_state STATE_Y STATE_Y = F_fin (13 / 2)
   \<and> tdoa32_P (stateEstimatorScalarUpdate_f32 rounding_H (F_zero False) (F_fin 1)
         rounding_state) STATE_Y STATE_Y = F_fin (13 / 2 + 1 / 2 ^ 21)"
proof -
  have "tdoa32_S underflow_state STATE_X = F_fin 2"
    by (simp add: underflow_state_def)
  moreover have "tdoa32_P rounding_state STATE_Y STATE_Y = F_fin (13 / 2)"
    by (simp add: rounding_state_def rounding_P_def)
  moreover have "(13631489 / 2 ^ 21 :: real) = 13 / 2 + 1 / 2 ^ 21"
    by simp
  ultimately show ?thesis
    using underflow_hyps rounding_hyps underflow_update rounding_update by simp
qed

text \<open>
  C8, amended. In exact (real) arithmetic, for a symmetric covariance \<open>P\<close> (positive
  semidefinite or not) and a positive innovation variance, one scalar update with
  residual 0 returns an estimator whose state vector is the old one and whose
  covariance has no diagonal entry above the old one.
\<close>

theorem zero_residual_update:
  assumes "symmetric (tdoa_P st)" "0 < spec_innovation (tdoa_P st) H sigma"
  shows "\<exists>st'. stateEstimatorScalarUpdate H 0 sigma st = Inr st'
           \<and> tdoa_S st' = tdoa_S st
           \<and> (\<forall>i. tdoa_P st' i i \<le> tdoa_P st i i)"
proof -
  let ?s = "spec_innovation (tdoa_P st) H sigma"
  have "0 \<le> mat_vec (tdoa_P st) H i * mat_vec (tdoa_P st) H i / ?s" for i
    using assms(2) by simp
  then show ?thesis
    using assms(2) by (simp add: scalar_update_result[OF assms(1)])
qed

theorem zero_residual_update_witness:
  "\<exists>st'. stateEstimatorScalarUpdate (unit_vec STATE_X) 0 0.15 sample_state = Inr st'
           \<and> tdoa_S st' = tdoa_S sample_state
           \<and> (\<forall>i. tdoa_P st' i i \<le> tdoa_P sample_state i i)"
  using zero_residual_update[of sample_state "unit_vec STATE_X" "0.15"]
    sample_P_sym sample_innovation_pos[of "unit_vec STATE_X"]
  by (simp add: sample_state_P)

text \<open>
  C9. In real arithmetic, with a symmetric positive-semidefinite covariance and
  \<open>sigma > 0\<close>, the prediction and the scalar update (which then returns an estimator)
  each leave a covariance that is symmetric, positive semidefinite, and hence has a
  non-negative diagonal. Since positive semidefiniteness itself is kept, the three
  properties hold after any sequence of the two operations.
\<close>

theorem covariance_invariants:
  assumes "symmetric (tdoa_P st)" "psd (tdoa_P st)" "0 < sigma"
  shows "symmetric (tdoa_P (stateEstimatorPredict st))
       \<and> psd (tdoa_P (stateEstimatorPredict st))
       \<and> (\<forall>i. 0 \<le> tdoa_P (stateEstimatorPredict st) i i)
       \<and> (\<exists>st'. stateEstimatorScalarUpdate H r sigma st = Inr st'
             \<and> symmetric (tdoa_P st') \<and> psd (tdoa_P st') \<and> (\<forall>i. 0 \<le> tdoa_P st' i i))"
proof -
  let ?P = "tdoa_P st"
  let ?s = "spec_innovation ?P H sigma"
  have pred_sym: "symmetric (tdoa_P (stateEstimatorPredict st))"
    using assms(1) by (simp add: stateEstimatorPredict_def symmetric_congruence)
  have pred_psd: "psd (tdoa_P (stateEstimatorPredict st))"
    using assms(2) by (simp add: stateEstimatorPredict_def psd_congruence)
  have pred_diag: "0 \<le> tdoa_P (stateEstimatorPredict st) i i" for i
    using pred_psd by (rule psd_diag_nonneg)
  have s: "0 < ?s"
    using assms(2,3) by (simp add: innovation_pos)
  have qs: "quad ?P H H \<le> ?s"
    by (simp add: innovation_quad)
  let ?P' = "\<lambda>i j. ?P i j - mat_vec ?P H i * mat_vec ?P H j / ?s"
  have upd: "stateEstimatorScalarUpdate H r sigma st =
     Inr (st\<lparr>tdoa_S := (\<lambda>i. tdoa_S st i + mat_vec ?P H i / ?s * r), tdoa_P := ?P'\<rparr>)"
    using s by (simp add: scalar_update_result[OF assms(1)])
  have upd_sym: "symmetric ?P'"
    using assms(1) by (rule symmetric_update)
  have upd_psd: "psd ?P'"
    using assms(1,2) s qs by (rule psd_update)
  have upd_diag: "0 \<le> ?P' i i" for i
    using upd_psd by (rule psd_diag_nonneg)
  show ?thesis
    unfolding upd using pred_sym pred_psd pred_diag upd_sym upd_psd upd_diag
    by simp
qed

theorem covariance_invariants_witness:
  "symmetric (tdoa_P (stateEstimatorPredict sample_state))
       \<and> psd (tdoa_P (stateEstimatorPredict sample_state))
       \<and> (\<forall>i. 0 \<le> tdoa_P (stateEstimatorPredict sample_state) i i)
       \<and> (\<exists>st'. stateEstimatorScalarUpdate (unit_vec STATE_X) 1 0.15 sample_state = Inr st'
             \<and> symmetric (tdoa_P st') \<and> psd (tdoa_P st') \<and> (\<forall>i. 0 \<le> tdoa_P st' i i))"
  using covariance_invariants[of sample_state "0.15" "unit_vec STATE_X" 1]
    sample_P_sym sample_P_psd
  by (simp add: sample_state_P)

subsection \<open>The range-difference update\<close>

lemma spec_dist_zero_iff:
  "spec_dist st a = 0 \<longleftrightarrow> getLocation st = anchorPosition st ! a"
proof -
  obtain ax ay az where a: "anchorPosition st ! a = \<lparr>crd_x = ax, crd_y = ay, crd_z = az\<rparr>"
    by (cases "anchorPosition st ! a") simp
  show ?thesis
    by (simp add: spec_dist_def getLocation_def a sum_power2_eq_zero_iff
        add_nonneg_eq_0_iff)
qed

lemma jacobian_eq:
  "(vec_zero
     (STATE_X := (tdoa_S st STATE_X - crd_x (anchorPosition st ! n)) / spec_dist st n
                 - (tdoa_S st STATE_X - crd_x (anchorPosition st ! r)) / spec_dist st r,
      STATE_Y := (tdoa_S st STATE_Y - crd_y (anchorPosition st ! n)) / spec_dist st n
                 - (tdoa_S st STATE_Y - crd_y (anchorPosition st ! r)) / spec_dist st r,
      STATE_Z := (tdoa_S st STATE_Z - crd_z (anchorPosition st ! n)) / spec_dist st n
                 - (tdoa_S st STATE_Z - crd_z (anchorPosition st ! r)) / spec_dist st r))
   = spec_jacobian st r n"
  by (auto simp: fun_eq_iff spec_jacobian_def vec_zero_def split: state_idx.splits)

lemma dist_update_unfold:
  assumes "unat Ar < length (anchorPosition st)" "unat An < length (anchorPosition st)"
  shows "scalarTDOADistUpdate Ar An m st =
     (if spec_dist st (unat An) = 0 \<or> spec_dist st (unat Ar) = 0 then Inl NonFinite
      else stateEstimatorScalarUpdate (spec_jacobian st (unat Ar) (unat An))
             (m - (spec_dist st (unat An) - spec_dist st (unat Ar))) (stdDev st) st)"
  using assms
  unfolding scalarTDOADistUpdate_def Let_def spec_dist_def[symmetric] jacobian_eq
  by simp

lemma sample_anchors:
  "unat (0 :: 8 word) < length (anchorPosition sample_state)"
  "unat (1 :: 8 word) < length (anchorPosition sample_state)"
  "anchorPosition sample_state ! unat (0 :: 8 word) \<noteq> getLocation sample_state"
  "anchorPosition sample_state ! unat (1 :: 8 word) \<noteq> getLocation sample_state"
  by (simp_all add: sample_state_def getLocation_def)

text \<open>
  C2. For anchor indices \<open>Ar\<close> (reference) and \<open>An\<close> (other) inside the anchor array
  whose stored positions both differ from the estimated position,
  \<open>scalarTDOADistUpdate\<close> is one generic scalar update of the same estimator: with the
  Jacobian whose position columns are \<open>(x - x_other)/d_other - (x - x_ref)/d_ref\<close> (and
  likewise for y and z) and whose velocity columns are 0, with the residual
  \<open>measured - (d(An) - d(Ar))\<close>, and with the estimator's own noise standard deviation.
\<close>

theorem tdoa_update_delegates:
  assumes "unat Ar < length (anchorPosition st)" "unat An < length (anchorPosition st)"
    and "anchorPosition st ! unat Ar \<noteq> getLocation st"
    and "anchorPosition st ! unat An \<noteq> getLocation st"
  shows "scalarTDOADistUpdate Ar An measured st =
     stateEstimatorScalarUpdate (spec_jacobian st (unat Ar) (unat An))
       (measured - (spec_dist st (unat An) - spec_dist st (unat Ar))) (stdDev st) st"
  using assms by (auto simp: dist_update_unfold spec_dist_zero_iff)

text \<open>
  In the sample state both anchors are at distance 5, so the predicted range
  difference is 0 and the residual is the measurement.
\<close>

theorem tdoa_update_delegates_witness:
  "scalarTDOADistUpdate 0 1 0.5 sample_state =
     stateEstimatorScalarUpdate (spec_jacobian sample_state 0 1) 0.5 0.15 sample_state
   \<and> spec_dist sample_state 0 = 5 \<and> spec_dist sample_state 1 = 5"
proof -
  have "sqrt 25 = sqrt (5\<^sup>2)" by simp
  then have root: "sqrt 25 = 5" by (simp del: real_sqrt_four)
  have dists: "spec_dist sample_state 0 = 5" "spec_dist sample_state 1 = 5"
    by (simp_all add: spec_dist_def sample_state_def root)
  have sd: "stdDev sample_state = 0.15"
    by (simp add: sample_state_def)
  show ?thesis
    using tdoa_update_delegates[OF sample_anchors, of "0.5"] dists sd by simp
qed

text \<open>
  C10, as the claim states it, fails on the binary32 code. The estimator at
  \<open>(1 / 2 ^ 80, 0, 0)\<close> differs from the anchor at the origin and from the anchor at
  \<open>(1 / 2 ^ 80, 1, 0)\<close>, its covariance is the identity and its noise standard
  deviation is 1; yet the squares in \<open>d1\<close> underflow, \<open>d1\<close> is 0, the Jacobian is
  \<open>(inf, NaN, NaN, 0, 0, 0)\<close> and the state becomes NaN. And the estimator at the
  origin with both anchors at distance 1, covariance 0 and noise standard deviation
  \<open>1 / 2 ^ 80\<close> has a positive-semidefinite covariance and a noise other than zero; yet
  \<open>sigma * sigma\<close> underflows, the innovation variance is 0, the gain is \<open>0 / 0\<close> and the
  state becomes NaN.
\<close>

theorem tdoa_update_float_counterexample:
  "unat (1 :: 8 word) < length (anchorPosition32 near_anchor_state)
   \<and> unat (0 :: 8 word) < length (anchorPosition32 near_anchor_state)
   \<and> tdoa32_S near_anchor_state STATE_X
        \<noteq> crd32_x (anchorPosition32 near_anchor_state ! unat (1 :: 8 word))
   \<and> tdoa32_S near_anchor_state STATE_Y
        \<noteq> crd32_y (anchorPosition32 near_anchor_state ! unat (0 :: 8 word))
   \<and> symmetric (real_mat (tdoa32_P near_anchor_state))
   \<and> psd (real_mat (tdoa32_P near_anchor_state))
   \<and> to_real (stdDev32 near_anchor_state) \<noteq> 0
   \<and> anchor_dist_f32 near_anchor_state (unat (1 :: 8 word)) = F_zero False
   \<and> \<not> isl (scalarTDOADistUpdate_f32 0 1 (F_zero False) near_anchor_state)
   \<and> tdoa32_S (projr (scalarTDOADistUpdate_f32 0 1 (F_zero False) near_anchor_state)) STATE_X
        = F_nan
   \<and> unat (1 :: 8 word) < length (anchorPosition32 small_noise_state)
   \<and> unat (0 :: 8 word) < length (anchorPosition32 small_noise_state)
   \<and> anchor_dist_f32 small_noise_state (unat (1 :: 8 word)) = F_fin 1
   \<and> anchor_dist_f32 small_noise_state (unat (0 :: 8 word)) = F_fin 1
   \<and> symmetric (real_mat (tdoa32_P small_noise_state))
   \<and> psd (real_mat (tdoa32_P small_noise_state))
   \<and> to_real (stdDev32 small_noise_state) \<noteq> 0
   \<and> \<not> isl (scalarTDOADistUpdate_f32 0 1 (F_zero False) small_noise_state)
   \<and> tdoa32_S (projr (scalarTDOADistUpdate_f32 0 1 (F_zero False) small_noise_state)) STATE_X
        = F_nan"
proof -
  have P: "real_mat (tdoa32_P near_anchor_state) = (\<lambda>i j. if i = j then 1 else 0)"
    by (intro ext) (simp add: near_anchor_state_def real_mat_def mat_identity32_def to_real_def)
  have sym: "symmetric (real_mat (tdoa32_P near_anchor_state))"
    unfolding P by (simp add: symmetric_def)
  have psd: "psd (real_mat (tdoa32_P near_anchor_state))"
    unfolding P using psd_diagonal[of "\<lambda>i. 1"] by simp
  have len: "unat (1 :: 8 word) < length (anchorPosition32 near_anchor_state)"
    "unat (0 :: 8 word) < length (anchorPosition32 near_anchor_state)"
    by (simp_all add: near_anchor_state_def)
  have ne: "tdoa32_S near_anchor_state STATE_X
        \<noteq> crd32_x (anchorPosition32 near_anchor_state ! unat (1 :: 8 word))"
    "tdoa32_S near_anchor_state STATE_Y
        \<noteq> crd32_y (anchorPosition32 near_anchor_state ! unat (0 :: 8 word))"
    "to_real (stdDev32 near_anchor_state) \<noteq> 0"
    by (simp_all add: near_anchor_state_def to_real_def)
  obtain st' where st': "scalarTDOADistUpdate_f32 0 1 (F_zero False) near_anchor_state = Inr st'"
    using len by (simp add: scalarTDOADistUpdate_f32_def Let_def)
  have nan: "tdoa32_S st' STATE_X = F_nan"
    using st' by (rule near_anchor_update)
  have near: "tdoa32_S (projr (scalarTDOADistUpdate_f32 0 1 (F_zero False) near_anchor_state))
      STATE_X = F_nan"
    "\<not> isl (scalarTDOADistUpdate_f32 0 1 (F_zero False) near_anchor_state)"
    using nan st' by simp_all
  have len2: "unat (1 :: 8 word) < length (anchorPosition32 small_noise_state)"
    "unat (0 :: 8 word) < length (anchorPosition32 small_noise_state)"
    by (simp_all add: small_noise_state_def)
  have hyps2: "symmetric (real_mat (tdoa32_P small_noise_state))"
    "psd (real_mat (tdoa32_P small_noise_state))"
    "to_real (stdDev32 small_noise_state) \<noteq> 0"
    by (simp_all add: small_noise_state_def real_mat_zero psd_zero symmetric_def to_real_def
        tiny_def)
  obtain st2 where st2: "scalarTDOADistUpdate_f32 0 1 (F_zero False) small_noise_state = Inr st2"
    using len2 by (simp add: scalarTDOADistUpdate_f32_def Let_def)
  have nan2: "tdoa32_S st2 STATE_X = F_nan"
    using st2 by (rule small_noise_update)
  have small: "tdoa32_S (projr (scalarTDOADistUpdate_f32 0 1 (F_zero False) small_noise_state))
      STATE_X = F_nan"
    "\<not> isl (scalarTDOADistUpdate_f32 0 1 (F_zero False) small_noise_state)"
    using nan2 st2 by simp_all
  show ?thesis
    using sym psd len ne near_anchor_d1 near len2 small_noise_dists hyps2 small
    by (intro conjI)
qed

text \<open>
  C10, amended. \<open>scalarTDOADistUpdate\<close> guards none of its divisors. In exact (real)
  arithmetic, for anchor indices inside the anchor array, the call returns an
  estimator exactly when the estimated position differs from both stored anchor
  positions and the innovation variance of the resulting update is not zero; in every
  other case a division by zero occurs. When the covariance is positive semidefinite,
  the noise standard deviation is not zero and the position differs from both
  anchors, the call returns an estimator.
\<close>

theorem tdoa_update_defined_iff:
  assumes "unat Ar < length (anchorPosition st)" "unat An < length (anchorPosition st)"
  shows "((\<exists>st'. scalarTDOADistUpdate Ar An measured st = Inr st') \<longleftrightarrow>
            (getLocation st \<noteq> anchorPosition st ! unat An
             \<and> getLocation st \<noteq> anchorPosition st ! unat Ar
             \<and> spec_innovation (tdoa_P st) (spec_jacobian st (unat Ar) (unat An)) (stdDev st) \<noteq> 0))
       \<and> (scalarTDOADistUpdate Ar An measured st = Inl NonFinite \<longleftrightarrow>
            (getLocation st = anchorPosition st ! unat An
             \<or> getLocation st = anchorPosition st ! unat Ar
             \<or> spec_innovation (tdoa_P st) (spec_jacobian st (unat Ar) (unat An)) (stdDev st) = 0))
       \<and> (psd (tdoa_P st) \<and> stdDev st \<noteq> 0
             \<and> getLocation st \<noteq> anchorPosition st ! unat An
             \<and> getLocation st \<noteq> anchorPosition st ! unat Ar
           \<longrightarrow> (\<exists>st'. scalarTDOADistUpdate Ar An measured st = Inr st'))"
proof -
  let ?H = "spec_jacobian st (unat Ar) (unat An)"
  let ?r = "measured - (spec_dist st (unat An) - spec_dist st (unat Ar))"
  have nf: "stateEstimatorScalarUpdate ?H ?r (stdDev st) st = Inl NonFinite \<longleftrightarrow>
      spec_innovation (tdoa_P st) ?H (stdDev st) = 0"
    by (rule scalar_update_fault_iff)
  have ok: "(\<exists>st'. stateEstimatorScalarUpdate ?H ?r (stdDev st) st = Inr st') \<longleftrightarrow>
      spec_innovation (tdoa_P st) ?H (stdDev st) \<noteq> 0"
    by (rule scalar_update_ok_iff)
  have pos: "psd (tdoa_P st) \<Longrightarrow> stdDev st \<noteq> 0 \<Longrightarrow>
      spec_innovation (tdoa_P st) ?H (stdDev st) \<noteq> 0"
    using innovation_pos[of "tdoa_P st" "stdDev st" ?H] by simp
  show ?thesis
    using nf ok pos
    by (auto simp: dist_update_unfold[OF assms] spec_dist_zero_iff[symmetric])
qed

theorem tdoa_update_defined_iff_witness:
  "(\<exists>st'. scalarTDOADistUpdate 0 1 0.5 sample_state = Inr st')
   \<and> psd (tdoa_P sample_state) \<and> stdDev sample_state \<noteq> 0
   \<and> getLocation sample_state \<noteq> anchorPosition sample_state ! unat (1 :: 8 word)
   \<and> getLocation sample_state \<noteq> anchorPosition sample_state ! unat (0 :: 8 word)
   \<and> scalarTDOADistUpdate 0 1 0.5 sample_state \<noteq> Inl NonFinite"
proof -
  have psd: "psd (tdoa_P sample_state)"
    by (simp add: sample_state_P sample_P_psd)
  have sd: "stdDev sample_state \<noteq> 0"
    by (simp add: sample_state_def)
  have ne: "getLocation sample_state \<noteq> anchorPosition sample_state ! unat (1 :: 8 word)"
    "getLocation sample_state \<noteq> anchorPosition sample_state ! unat (0 :: 8 word)"
    using sample_anchors(3,4) by auto
  have ex: "\<exists>st'. scalarTDOADistUpdate 0 1 0.5 sample_state = Inr st'"
    using tdoa_update_defined_iff[OF sample_anchors(1,2), of "0.5"] psd sd ne by blast
  then have "scalarTDOADistUpdate 0 1 0.5 sample_state \<noteq> Inl NonFinite"
    by auto
  with ex psd sd ne show ?thesis by blast
qed

subsection \<open>The constructor and the anchor registry\<close>

lemma ctor_result:
  assumes "4 \<le> length storage"
  shows "TDOA_ctor storage =
     Inr \<lparr>tdoaCount = 0, nr_states = STATE_DIM,
          tdoa_S = vec_zero(STATE_X := 2, STATE_Y := 2.6),
          tdoa_P = mat_set (mat_set (mat_set (mat_set (mat_set (mat_set mat_zero
                     STATE_X STATE_X (100 ^ 2)) STATE_Y STATE_Y (100 ^ 2)) STATE_Z STATE_Z (1 ^ 2))
                     STATE_VX STATE_VX (0.01 ^ 2)) STATE_VY STATE_VY (0.01 ^ 2))
                     STATE_VZ STATE_VZ (0.01 ^ 2),
          tdoa_A = mat_set (mat_set (mat_set mat_identity STATE_X STATE_VX 0.016)
                     STATE_Y STATE_VY 0.016) STATE_Z STATE_VZ 0.016,
          anchorPosition = storage
            [0 := \<lparr>crd_x = 4.628, crd_y = 0.600, crd_z = 1.312\<rparr>,
             1 := \<lparr>crd_x = 4.628, crd_y = 3.810, crd_z = 1.297\<rparr>,
             2 := \<lparr>crd_x = 0.043, crd_y = 4.210, crd_z = 1.302\<rparr>,
             3 := \<lparr>crd_x = 0.123, crd_y = 1.673, crd_z = 1.903\<rparr>],
          stdDev = 0.15\<rparr>"
  using assms by (simp add: TDOA_ctor_def initAnchorPos_def Let_def)

text \<open>
  C7, as the claim states it, fails: the constructor gives the z position the variance
  \<open>1\<^sup>2\<close>, not \<open>100\<^sup>2\<close>.
\<close>

theorem ctor_z_variance_counterexample:
  "\<not> isl (TDOA_ctor sample_storage)
   \<and> tdoa_P (projr (TDOA_ctor sample_storage)) STATE_Z STATE_Z = 1
   \<and> tdoa_P (projr (TDOA_ctor sample_storage)) STATE_Z STATE_Z \<noteq> 100 ^ 2"
  by (simp add: ctor_result sample_storage_def mat_set_def)

text \<open>
  C7, amended. When the anchor array has room for the four default anchors, the
  constructor returns an estimator whose state is \<open>x = 2\<close>, \<open>y = 2.6\<close> and 0 elsewhere;
  whose covariance is diagonal with the variance \<open>100\<^sup>2\<close> for the x and the y position,
  \<open>1\<^sup>2\<close> for the z position and \<open>0.01\<^sup>2\<close> for each velocity; whose transition matrix is
  the identity with 0.016 in the three entries that couple a position to its
  velocity; and whose noise standard deviation is 0.15.
\<close>

theorem ctor_initial_values:
  assumes "4 \<le> length storage"
  shows "\<exists>st. TDOA_ctor storage = Inr st
     \<and> tdoa_S st = (\<lambda>i. case i of STATE_X \<Rightarrow> 2 | STATE_Y \<Rightarrow> 2.6 | STATE_Z \<Rightarrow> 0
                          | STATE_VX \<Rightarrow> 0 | STATE_VY \<Rightarrow> 0 | STATE_VZ \<Rightarrow> 0)
     \<and> tdoa_P st = (\<lambda>i j. if i = j
            then (case i of STATE_X \<Rightarrow> 100\<^sup>2 | STATE_Y \<Rightarrow> 100\<^sup>2 | STATE_Z \<Rightarrow> 1\<^sup>2
                    | STATE_VX \<Rightarrow> 0.01\<^sup>2 | STATE_VY \<Rightarrow> 0.01\<^sup>2 | STATE_VZ \<Rightarrow> 0.01\<^sup>2)
            else 0)
     \<and> tdoa_A st = (\<lambda>i j. if i = j then 1
            else if (i, j) \<in> {(STATE_X, STATE_VX), (STATE_Y, STATE_VY), (STATE_Z, STATE_VZ)}
              then 0.016 else 0)
     \<and> stdDev st = 0.15"
proof -
  have S: "vec_zero(STATE_X := 2, STATE_Y := 2.6) =
      (\<lambda>i. case i of STATE_X \<Rightarrow> 2 | STATE_Y \<Rightarrow> 2.6 | STATE_Z \<Rightarrow> 0
                          | STATE_VX \<Rightarrow> 0 | STATE_VY \<Rightarrow> 0 | STATE_VZ \<Rightarrow> (0::real))"
    by (auto simp: fun_eq_iff vec_zero_def split: state_idx.splits)
  have P: "mat_set (mat_set (mat_set (mat_set (mat_set (mat_set mat_zero
                     STATE_X STATE_X (100 ^ 2)) STATE_Y STATE_Y (100 ^ 2)) STATE_Z STATE_Z (1 ^ 2))
                     STATE_VX STATE_VX (0.01 ^ 2)) STATE_VY STATE_VY (0.01 ^ 2))
                     STATE_VZ STATE_VZ (0.01 ^ 2) =
      (\<lambda>i j. if i = j
            then (case i of STATE_X \<Rightarrow> 100\<^sup>2 | STATE_Y \<Rightarrow> 100\<^sup>2 | STATE_Z \<Rightarrow> 1\<^sup>2
                    | STATE_VX \<Rightarrow> 0.01\<^sup>2 | STATE_VY \<Rightarrow> 0.01\<^sup>2 | STATE_VZ \<Rightarrow> 0.01\<^sup>2)
            else (0::real))"
    by (intro ext) (simp add: mat_set_def mat_zero_def split: state_idx.splits)
  have A: "mat_set (mat_set (mat_set mat_identity STATE_X STATE_VX 0.016)
                     STATE_Y STATE_VY 0.016) STATE_Z STATE_VZ 0.016 =
      (\<lambda>i j. if i = j then 1
            else if (i, j) \<in> {(STATE_X, STATE_VX), (STATE_Y, STATE_VY), (STATE_Z, STATE_VZ)}
              then 0.016 else (0::real))"
    by (intro ext) (auto simp: mat_set_def mat_identity_def)
  show ?thesis
    unfolding ctor_result[OF assms] S P A by simp
qed

theorem ctor_initial_values_witness:
  "\<exists>st. TDOA_ctor sample_storage = Inr st
     \<and> tdoa_S st = (\<lambda>i. case i of STATE_X \<Rightarrow> 2 | STATE_Y \<Rightarrow> 2.6 | STATE_Z \<Rightarrow> 0
                          | STATE_VX \<Rightarrow> 0 | STATE_VY \<Rightarrow> 0 | STATE_VZ \<Rightarrow> 0)
     \<and> tdoa_P st = (\<lambda>i j. if i = j
            then (case i of STATE_X \<Rightarrow> 100\<^sup>2 | STATE_Y \<Rightarrow> 100\<^sup>2 | STATE_Z \<Rightarrow> 1\<^sup>2
                    | STATE_VX \<Rightarrow> 0.01\<^sup>2 | STATE_VY \<Rightarrow> 0.01\<^sup>2 | STATE_VZ \<Rightarrow> 0.01\<^sup>2)
            else 0)
     \<and> tdoa_A st = (\<lambda>i j. if i = j then 1
            else if (i, j) \<in> {(STATE_X, STATE_VX), (STATE_Y, STATE_VY), (STATE_Z, STATE_VZ)}
              then 0.016 else 0)
     \<and> stdDev st = 0.15"
proof -
  have "4 \<le> length sample_storage" by (simp add: sample_storage_def)
  then show ?thesis by (rule ctor_initial_values)
qed

text \<open>
  What \<open>setAncPosition\<close> does for each index: below 0 or above \<open>MAX_NR_ANCHORS\<close> the
  request is ignored; from 0 to \<open>MAX_NR_ANCHORS\<close>, both included, it goes on to the
  store, which is out of range when the array ends before the index.
\<close>

lemma setAncPosition_ignored:
  "anc_num < 0 \<or> MAX_NR_ANCHORS < anc_num \<Longrightarrow>
   setAncPosition MAX_NR_ANCHORS anc_num anc_pos st = Inr st"
  by (auto simp: setAncPosition_def)

lemma setAncPosition_stored:
  "0 \<le> anc_num \<Longrightarrow> anc_num < MAX_NR_ANCHORS \<Longrightarrow>
   length (anchorPosition st) = nat MAX_NR_ANCHORS \<Longrightarrow>
   setAncPosition MAX_NR_ANCHORS anc_num anc_pos st =
     Inr (st\<lparr>anchorPosition := (anchorPosition st)[nat anc_num := anc_pos]\<rparr>)"
  by (auto simp: setAncPosition_def)

lemma setAncPosition_at_MAX:
  "0 \<le> MAX_NR_ANCHORS \<Longrightarrow> length (anchorPosition st) = nat MAX_NR_ANCHORS \<Longrightarrow>
   setAncPosition MAX_NR_ANCHORS MAX_NR_ANCHORS anc_pos st = Inl OutOfRange"
  by (simp add: setAncPosition_def)

lemma setAncPosition_at_MAX_longer_array:
  "0 \<le> MAX_NR_ANCHORS \<Longrightarrow> nat MAX_NR_ANCHORS < length (anchorPosition st) \<Longrightarrow>
   setAncPosition MAX_NR_ANCHORS MAX_NR_ANCHORS anc_pos st =
     Inr (st\<lparr>anchorPosition := (anchorPosition st)[nat MAX_NR_ANCHORS := anc_pos]\<rparr>)"
  by (simp add: setAncPosition_def)

text \<open>
  C6 says that a request with an index outside \<open>[0, MAX_NR_ANCHORS)\<close> is ignored. At the
  index \<open>MAX_NR_ANCHORS\<close> itself the guard \<open>anc_num > MAX_NR_ANCHORS\<close> does not reject the
  request: with an array of four anchors and \<open>MAX_NR_ANCHORS = 4\<close>, the request for
  index 4 is not answered by the unchanged estimator but stores past the end of the
  array.
\<close>

theorem setAncPosition_index_MAX:
  "setAncPosition 4 4 \<lparr>crd_x = 1, crd_y = 2, crd_z = 3\<rparr> sample_state = Inl OutOfRange
   \<and> setAncPosition 4 4 \<lparr>crd_x = 1, crd_y = 2, crd_z = 3\<rparr> sample_state \<noteq> Inr sample_state
   \<and> setAncPosition 4 5 \<lparr>crd_x = 1, crd_y = 2, crd_z = 3\<rparr> sample_state = Inr sample_state"
  by (simp add: setAncPosition_def sample_state_def)

section \<open>Properties of the controller\<close>

subsection \<open>Filling a vector and the constraint loop\<close>

lemmas start_defs = N_def x_start_def y_start_def psi_start_def cte_start_def epsi_start_def
  v_start_def delta_start_def n_vars_def n_constraints_def

lemma spec_poly_slope_is_derivative:
  "(spec_poly c has_real_derivative spec_poly_slope c x) (at x)"
  unfolding spec_poly_def[abs_def] spec_poly_slope_def
  by (auto intro!: derivative_eq_intros simp: power2_eq_square)

lemma length_fold_fill: "length (fold (\<lambda>i v. v[i := c]) js xs) = length xs"
  by (induction js arbitrary: xs) simp_all

lemma fold_fill_nth:
  "k < length xs \<Longrightarrow>
   fold (\<lambda>i v. v[i := c]) [a..<b] xs ! k = (if a \<le> k \<and> k < b then c else xs ! k)"
proof (induction b)
  case 0
  then show ?case by simp
next
  case (Suc b)
  then show ?case
    by (cases "k = b") (auto simp: length_fold_fill nth_list_update)
qed

lemma length_model_step: "length (model_step coeffs vars t fg) = length fg"
  by (simp add: model_step_def Let_def)

lemma length_fold_model_step: "length (fold (model_step coeffs vars) ts fg) = length fg"
  by (induction ts arbitrary: fg) (simp_all add: length_model_step)

lemma model_step_other: "k \<notin> model_rows t \<Longrightarrow> model_step coeffs vars t fg ! k = fg ! k"
  by (simp add: model_step_def Let_def model_rows_def)

lemma model_rows_disjoint:
  "t < N \<Longrightarrow> t' < N \<Longrightarrow> t \<noteq> t' \<Longrightarrow> k \<in> model_rows t \<Longrightarrow> k \<notin> model_rows t'"
  by (auto simp: model_rows_def start_defs)

lemma fold_model_step_other:
  "\<forall>t \<in> set ts. k \<notin> model_rows t \<Longrightarrow> fold (model_step coeffs vars) ts fg ! k = fg ! k"
  by (induction ts arbitrary: fg) (simp_all add: model_step_other)

lemma model_step_row_indep:
  "k \<in> model_rows t \<Longrightarrow> length fg = length fg' \<Longrightarrow> k < length fg \<Longrightarrow>
   model_step coeffs vars t fg ! k = model_step coeffs vars t fg' ! k"
  by (auto simp: model_rows_def model_step_def Let_def nth_list_update start_defs)

lemma fold_model_step_row:
  assumes "t \<in> set ts" "distinct ts" "\<forall>t' \<in> set ts. t' < N" "k \<in> model_rows t"
    "k < length fg"
  shows "fold (model_step coeffs vars) ts fg ! k = model_step coeffs vars t fg ! k"
  using assms
proof (induction ts arbitrary: fg)
  case Nil
  then show ?case by simp
next
  case (Cons a ts)
  show ?case
  proof (cases "a = t")
    case True
    then have "\<forall>t' \<in> set ts. k \<notin> model_rows t'"
      using Cons.prems model_rows_disjoint[of t _ k] by auto
    then show ?thesis
      using True by (simp add: fold_model_step_other)
  next
    case False
    then have "fold (model_step coeffs vars) ts (model_step coeffs vars a fg) ! k =
        model_step coeffs vars t (model_step coeffs vars a fg) ! k"
      using Cons.prems by (intro Cons.IH) (auto simp: length_model_step)
    also have "\<dots> = model_step coeffs vars t fg ! k"
      using Cons.prems by (intro model_step_row_indep) (auto simp: length_model_step)
    finally show ?thesis by simp
  qed
qed

lemma model_step_rows:
  assumes "1 + epsi_start + N \<le> length fg" "1 \<le> t" "t < N"
  shows "model_step coeffs vars t fg ! (1 + x_start + t) =
           x_at vars t - (x_at vars (t - 1)
             + speed_at vars (t - 1) * cos (heading_at vars (t - 1)) * dt)"
    and "model_step coeffs vars t fg ! (1 + y_start + t) =
           y_at vars t - (y_at vars (t - 1)
             + speed_at vars (t - 1) * sin (heading_at vars (t - 1)) * dt)"
    and "model_step coeffs vars t fg ! (1 + psi_start + t) =
           heading_at vars t - (heading_at vars (t - 1)
             + speed_at vars (t - 1) * tan (steering_at vars (t - 1)) * dt / lr)"
    and "model_step coeffs vars t fg ! (1 + cte_start + t) =
           cte_at vars t - ((spec_poly coeffs (x_at vars (t - 1)) - y_at vars (t - 1))
             + speed_at vars (t - 1) * sin (heading_error_at vars (t - 1)) * dt)"
    and "model_step coeffs vars t fg ! (1 + epsi_start + t) =
           heading_error_at vars t
           - ((heading_at vars (t - 1) - arctan (spec_poly_slope coeffs (x_at vars (t - 1))))
             + speed_at vars (t - 1) * steering_at vars (t - 1) * dt / lr)"
proof -
  obtain s where s: "t = Suc s" using assms(2) by (cases t) auto
  show "model_step coeffs vars t fg ! (1 + x_start + t) =
           x_at vars t - (x_at vars (t - 1)
             + speed_at vars (t - 1) * cos (heading_at vars (t - 1)) * dt)"
    and "model_step coeffs vars t fg ! (1 + y_start + t) =
           y_at vars t - (y_at vars (t - 1)
             + speed_at vars (t - 1) * sin (heading_at vars (t - 1)) * dt)"
    and "model_step coeffs vars t fg ! (1 + psi_start + t) =
           heading_at vars t - (heading_at vars (t - 1)
             + speed_at vars (t - 1) * tan (steering_at vars (t - 1)) * dt / lr)"
    and "model_step coeffs vars t fg ! (1 + cte_start + t) =
           cte_at vars t - ((spec_poly coeffs (x_at vars (t - 1)) - y_at vars (t - 1))
             + speed_at vars (t - 1) * sin (heading_error_at vars (t - 1)) * dt)"
    and "model_step coeffs vars t fg ! (1 + epsi_start + t) =
           heading_error_at vars t
           - ((heading_at vars (t - 1) - arctan (spec_poly_slope coeffs (x_at vars (t - 1))))
             + speed_at vars (t - 1) * steering_at vars (t - 1) * dt / lr)"
    using assms(1,3) unfolding s
  by (simp_all add: model_step_def Let_def x_at_def y_at_def heading_at_def cte_at_def
      heading_error_at_def speed_at_def steering_at_def spec_poly_def spec_poly_slope_def
      start_defs power2_eq_square power3_eq_cube algebra_simps)
qed

lemma Solve_problem_fg_eval: "fg_eval (Solve_problem state coeffs) = FG_eval coeffs"
  by (simp add: Solve_problem_def Let_def)

lemma Solve_problem_bounds:
  assumes "1 \<le> t" "t < N" "k \<in> model_rows t"
  shows "gl (Solve_problem state coeffs) ! (k - 1) = 0"
    and "gu (Solve_problem state coeffs) ! (k - 1) = 0"
  using assms
  by (auto simp: Solve_problem_def Let_def model_rows_def nth_list_update fold_fill_nth
      length_fold_fill start_defs)

lemma FG_eval_rows:
  assumes "4 \<le> length coeffs" "n_vars \<le> length vars" "1 + n_constraints \<le> length fg0"
    and "1 \<le> t" "t < N" "k \<in> model_rows t"
  shows "\<exists>fg. FG_eval coeffs fg0 vars = Inr fg \<and> fg ! k = model_step coeffs vars t fg0 ! k"
proof -
  define fg5 where "fg5 = fg0[0 := cost vars, 1 + x_start := vars ! x_start,
      1 + y_start := vars ! y_start, 1 + psi_start := vars ! psi_start,
      1 + cte_start := vars ! cte_start, 1 + epsi_start := vars ! epsi_start]"
  have len: "length fg5 = length fg0" by (simp add: fg5_def)
  have k: "k < length fg0"
    using assms(3,5,6) by (auto simp: model_rows_def start_defs)
  have ev: "FG_eval coeffs fg0 vars = Inr (fold (model_step coeffs vars) [1..<N] fg5)"
    using assms(1-3) by (simp add: FG_eval_def Let_def fg5_def start_defs)
  have "fold (model_step coeffs vars) [1..<N] fg5 ! k = model_step coeffs vars t fg5 ! k"
    using assms(4-6) k len by (intro fold_model_step_row) auto
  also have "\<dots> = model_step coeffs vars t fg0 ! k"
    using assms(6) k len by (intro model_step_row_indep) auto
  finally show ?thesis using ev by simp
qed

text \<open>
  C3. Take any start state of five entries, four polynomial coefficients, any point
  \<open>vars\<close> of the solver's size and any horizon step \<open>t\<close> from 1 to \<open>N - 1\<close>. The
  operator evaluates without fault, and each of the five constraints of step \<open>t\<close>, with
  the bounds \<open>Solve\<close> gives it, holds exactly when the corresponding relation of the
  bicycle model holds between step \<open>t - 1\<close> and step \<open>t\<close>; \<open>spec_poly\<close> is the cubic of
  the coefficients and \<open>spec_poly_slope\<close> its derivative.
\<close>

theorem mpc_dynamics_constraints:
  assumes "5 \<le> length state" "4 \<le> length coeffs" "n_vars \<le> length vars"
    and "1 + n_constraints \<le> length fg0" "1 \<le> t" "t < N"
  shows "\<exists>fg. fg_eval (Solve_problem state coeffs) fg0 vars = Inr fg
     \<and> (constraint_holds (Solve_problem state coeffs) fg (x_start + t) \<longleftrightarrow>
          x_at vars t = x_at vars (t - 1)
             + speed_at vars (t - 1) * cos (heading_at vars (t - 1)) * dt)
     \<and> (constraint_holds (Solve_problem state coeffs) fg (y_start + t) \<longleftrightarrow>
          y_at vars t = y_at vars (t - 1)
             + speed_at vars (t - 1) * sin (heading_at vars (t - 1)) * dt)
     \<and> (constraint_holds (Solve_problem state coeffs) fg (psi_start + t) \<longleftrightarrow>
          heading_at vars t = heading_at vars (t - 1)
             + speed_at vars (t - 1) * tan (steering_at vars (t - 1)) * dt / lr)
     \<and> (constraint_holds (Solve_problem state coeffs) fg (cte_start + t) \<longleftrightarrow>
          cte_at vars t = (spec_poly coeffs (x_at vars (t - 1)) - y_at vars (t - 1))
             + speed_at vars (t - 1) * sin (heading_error_at vars (t - 1)) * dt)
     \<and> (constraint_holds (Solve_problem state coeffs) fg (epsi_start + t) \<longleftrightarrow>
          heading_error_at vars t =
             (heading_at vars (t - 1) - arctan (spec_poly_slope coeffs (x_at vars (t - 1))))
             + speed_at vars (t - 1) * steering_at vars (t - 1) * dt / lr)"
proof -
  let ?p = "Solve_problem state coeffs"
  have len: "1 + epsi_start + N \<le> length fg0"
    using assms(4) by (simp add: start_defs)
  obtain fg where ev: "FG_eval coeffs fg0 vars = Inr fg"
    using FG_eval_rows[OF assms(2-6), of "1 + x_start + t"] by (auto simp: model_rows_def)
  have row: "fg ! k = model_step coeffs vars t fg0 ! k" if "k \<in> model_rows t" for k
    using FG_eval_rows[OF assms(2-6) that] ev by auto
  have holds: "constraint_holds ?p fg (k - 1) \<longleftrightarrow> model_step coeffs vars t fg0 ! k = 0"
    if "k \<in> model_rows t" for k
  proof -
    have "1 + (k - 1) = k" using that by (auto simp: model_rows_def)
    then show ?thesis
      using Solve_problem_bounds[OF assms(5,6) that, of state coeffs] row[OF that]
      by (auto simp: constraint_holds_def)
  qed
  note rows = model_step_rows[OF len assms(5,6), of coeffs vars]
  have "constraint_holds ?p fg (x_start + t) \<longleftrightarrow>
          x_at vars t = x_at vars (t - 1)
             + speed_at vars (t - 1) * cos (heading_at vars (t - 1)) * dt"
    using holds[of "1 + x_start + t"] rows(1) by (auto simp: model_rows_def)
  moreover have "constraint_holds ?p fg (y_start + t) \<longleftrightarrow>
          y_at vars t = y_at vars (t - 1)
             + speed_at vars (t - 1) * sin (heading_at vars (t - 1)) * dt"
    using holds[of "1 + y_start + t"] rows(2) by (auto simp: model_rows_def)
  moreover have "constraint_holds ?p fg (psi_start + t) \<longleftrightarrow>
          heading_at vars t = heading_at vars (t - 1)
             + speed_at vars (t - 1) * tan (steering_at vars (t - 1)) * dt / lr"
    using holds[of "1 + psi_start + t"] rows(3) by (auto simp: model_rows_def)
  moreover have "constraint_holds ?p fg (cte_start + t) \<longleftrightarrow>
          cte_at vars t = (spec_poly coeffs (x_at vars (t - 1)) - y_at vars (t - 1))
             + speed_at vars (t - 1) * sin (heading_error_at vars (t - 1)) * dt"
    using holds[of "1 + cte_start + t"] rows(4) by (auto simp: model_rows_def)
  moreover have "constraint_holds ?p fg (epsi_start + t) \<longleftrightarrow>
          heading_error_at vars t =
             (heading_at vars (t - 1) - arctan (spec_poly_slope coeffs (x_at vars (t - 1))))
             + speed_at vars (t - 1) * steering_at vars (t - 1) * dt / lr"
    using holds[of "1 + epsi_start + t"] rows(5) by (auto simp: model_rows_def)
  ultimately show ?thesis
    using ev by (simp add: Solve_problem_fg_eval)
qed

text \<open>The trajectory that stays at the origin satisfies the five constraints of step 1.\<close>

theorem mpc_dynamics_constraints_witness:
  "\<exists>fg. fg_eval (Solve_problem [0, 0, 0, 0, 0] [0, 0, 0, 0]) (replicate 51 0) (replicate 68 0)
           = Inr fg
     \<and> constraint_holds (Solve_problem [0, 0, 0, 0, 0] [0, 0, 0, 0]) fg (x_start + 1)
     \<and> constraint_holds (Solve_problem [0, 0, 0, 0, 0] [0, 0, 0, 0]) fg (y_start + 1)
     \<and> constraint_holds (Solve_problem [0, 0, 0, 0, 0] [0, 0, 0, 0]) fg (psi_start + 1)
     \<and> constraint_holds (Solve_problem [0, 0, 0, 0, 0] [0, 0, 0, 0]) fg (cte_start + 1)
     \<and> constraint_holds (Solve_problem [0, 0, 0, 0, 0] [0, 0, 0, 0]) fg (epsi_start + 1)"
proof -
  have "(5::nat) \<le> length [0, 0, 0, 0, 0 :: real]" "(4::nat) \<le> length [0, 0, 0, 0 :: real]"
    "n_vars \<le> length (replicate 68 (0::real))"
    "1 + n_constraints \<le> length (replicate 51 (0::real))" "(1::nat) \<le> 1" "1 < N"
    by (simp_all add: start_defs)
  from mpc_dynamics_constraints[OF this]
  show ?thesis
    by (simp add: x_at_def y_at_def heading_at_def cte_at_def heading_error_at_def
        speed_at_def steering_at_def spec_poly_def spec_poly_slope_def start_defs)
qed

subsection \<open>The status of the solver\<close>

lemma Solve_ignores_status:
  "Solve (\<lambda>p. (solver p)\<lparr>status := s\<rparr>) state coeffs this = Solve solver state coeffs this"
  by (simp add: Solve_def Let_def)

text \<open>
  C4 says that \<open>Solve\<close> does not return the actuation pair when the solver reports a
  status other than success. The source computes the flag \<open>ok\<close> from the status and
  never reads it: with a solver that reports \<open>maxiter_exceeded\<close> and the point it
  reached, \<open>Solve\<close> returns the steering and the speed of that point, and the predicted
  positions, as it would after a success.
\<close>

theorem Solve_returns_after_failure:
  "status (failing_solver (Solve_problem [0, 0, 0, 0, 0] [0, 0, 0, 0])) = maxiter_exceeded
   \<and> Solve failing_solver [0, 0, 0, 0, 0] [0, 0, 0, 0] \<lparr>x_vals = [], y_vals = []\<rparr>
       = Inr ([7, 7], \<lparr>x_vals = replicate 9 7, y_vals = replicate 9 7\<rparr>)"
  by (simp add: Solve_def failing_solver_def Let_def start_defs upt_rec_numeral
      eval_nat_numeral)

end
